theory Spec2Isabelle
  imports Main
begin

section \<open>Data model\<close>

text \<open>
  The probe engine of gowitness: the orchestrator (\<open>runner.Runner\<close>) and the two
  drivers (\<open>driver.Chromedp\<close>, \<open>driver.Gorod\<close>). Go strings are byte strings and
  become \<open>string\<close>; Go's \<open>int\<close>, \<open>int64\<close> values are only copied, never computed
  with, so they are \<open>int\<close>. An \<open>error\<close> value is represented by its message, and
  a nil error by \<open>None\<close>.
\<close>

text \<open>
  \<open>time.Time\<close>: the zero value, or a point in time. \<open>TimeSinceEpoch\<close> is the DevTools
  time stamp; the drivers only convert it, so it is kept as a number.
\<close>

type_synonym TimeSinceEpoch = int

datatype gotime = ZeroTime | At TimeSinceEpoch

datatype RequestType = HTTP | WS

text \<open>
  The records of package \<open>models\<close>, with the fields the runner and the drivers use.
  A field is named as in the source; the fields of the records nested in a Result
  carry a short prefix, since two records cannot share a field name.
\<close>

record Header =
  hdr_Key :: string
  hdr_Value :: string

record TLSSanList =
  san_Value :: string

record TLS =
  tls_Protocol :: string
  tls_KeyExchange :: string
  tls_Cipher :: string
  tls_SubjectName :: string
  tls_SanList :: "TLSSanList list"
  tls_Issuer :: string
  tls_ValidFrom :: gotime
  tls_ValidTo :: gotime
  tls_ServerSignatureAlgorithm :: int
  tls_EncryptedClientHello :: bool

record NetworkLog =
  nl_Time :: gotime
  nl_RequestType :: RequestType
  nl_URL :: string
  nl_StatusCode :: int
  nl_RemoteIP :: string
  nl_MIMEType :: string
  nl_Error :: string
  nl_Content :: string

record ConsoleLog =
  con_Type :: string
  con_Value :: string

record Cookie =
  ck_Name :: string
  ck_Value :: string
  ck_Domain :: string
  ck_Path :: string
  ck_Expires :: gotime
  ck_Size :: int
  ck_HTTPOnly :: bool
  ck_Secure :: bool
  ck_Session :: bool
  ck_Priority :: string
  ck_SourceScheme :: string
  ck_SourcePort :: int

record Technology =
  tech_Value :: string

record Result =
  URL :: string
  ProbedAt :: gotime
  FinalURL :: string
  ResponseCode :: int
  ResponseReason :: string
  Protocol :: string
  ContentLength :: int
  HTML :: string
  Title :: string
  PerceptionHash :: string
  Screenshot :: string
  Filename :: string
  Failed :: bool
  FailedReason :: string
  TLS :: TLS
  Technologies :: "Technology list"
  Headers :: "Header list"
  Network :: "NetworkLog list"
  Console :: "ConsoleLog list"
  Cookies :: "Cookie list"

text \<open>The zero values Go gives to a struct literal that leaves fields out.\<close>

definition zero_TLS :: TLS where
  "zero_TLS = \<lparr>tls_Protocol = [], tls_KeyExchange = [], tls_Cipher = [], tls_SubjectName = [],
     tls_SanList = [], tls_Issuer = [], tls_ValidFrom = ZeroTime, tls_ValidTo = ZeroTime,
     tls_ServerSignatureAlgorithm = 0, tls_EncryptedClientHello = False\<rparr>"

text \<open>\<open>&models.Result{URL: target, ProbedAt: time.Now()}\<close>\<close>

definition new_Result :: "string \<Rightarrow> gotime \<Rightarrow> Result" where
  "new_Result target now = \<lparr>URL = target, ProbedAt = now, FinalURL = [], ResponseCode = 0,
     ResponseReason = [], Protocol = [], ContentLength = 0, HTML = [], Title = [],
     PerceptionHash = [], Screenshot = [], Filename = [], Failed = False, FailedReason = [],
     TLS = zero_TLS, Technologies = [], Headers = [], Network = [], Console = [],
     Cookies = []\<rparr>"

subsection \<open>Options\<close>

record Logging =
  Debug :: bool
  LogScanErrors :: bool
  Silence :: bool

record Chrome =
  Path :: string
  WSS :: string
  Proxy :: string
  UserAgent :: string
  Chrome_Headers :: "string list"
  WindowX :: int
  WindowY :: int

record Scan =
  Driver :: string
  Threads :: int
  Timeout :: int
  Delay :: int
  UriFilter :: "string list"
  SkipHTML :: bool
  ScreenshotPath :: string
  ScreenshotFormat :: string
  ScreenshotFullPage :: bool
  ScreenshotToWriter :: bool
  ScreenshotSkipSave :: bool
  JavaScript :: string
  JavaScriptFile :: string
  SaveContent :: bool
  Selector :: string

record Options =
  Logging :: Logging
  Chrome :: Chrome
  Scan :: Scan

subsection \<open>Logging\<close>

text \<open>
  A log line of \<open>slog\<close>: its level, its message and the value of the attribute the
  message is about (the header, or the error's text).
\<close>

datatype level = LDebug | LInfo | LWarn | LError

type_synonym log_entry = "level \<times> string \<times> string"

section \<open>The orchestrator\<close>

text \<open>
  \<open>writers.Writer\<close> is an interface with one method, \<open>Write(result) error\<close>. A writer
  acts on the outside world (a database, a file), of type \<open>'s\<close> here: it takes the
  Result and the world and returns its error, if any, and the new world.
  \<open>Driver.Witness\<close> is the same kind of thing; it returns a Result or an error, and
  the runner tells one error apart, \<open>ChromeNotFoundError\<close>.
\<close>

type_synonym 's Writer = "Result \<Rightarrow> 's \<Rightarrow> string option \<times> 's"

datatype witness_error = ChromeNotFoundError string | OtherError string

type_synonym 's Witness = "string \<Rightarrow> 's \<Rightarrow> (witness_error + Result) \<times> 's"

text \<open>
  What a worker has done so far: the world, the log, and every call of a writer's
  \<open>Write\<close> in order (the writer's index in \<open>run.writers\<close> and the Result passed);
  \<open>cancelled\<close> says that \<open>run.cancel()\<close> was called.
\<close>

record 's run_state =
  world :: 's
  logs :: "log_entry list"
  written :: "(nat \<times> Result) list"
  cancelled :: bool

text \<open>
  \<open>runWriters\<close>: the loop over \<open>run.writers\<close>, which returns at the first error.
  The index \<open>i\<close> is that of the head of the remaining slice.
\<close>

fun runWriters_from :: "nat \<Rightarrow> 's Writer list \<Rightarrow> Result \<Rightarrow> 's run_state
    \<Rightarrow> string option \<times> 's run_state" where
  "runWriters_from i [] result st = (None, st)"
| "runWriters_from i (writer # ws) result st =
     (case writer result (world st) of
        (Some err, w') \<Rightarrow>
          (Some err, st\<lparr>world := w', written := written st @ [(i, result)]\<rparr>)
      | (None, w') \<Rightarrow>
          runWriters_from (Suc i) ws result
            (st\<lparr>world := w', written := written st @ [(i, result)]\<rparr>))"

definition runWriters :: "'s Writer list \<Rightarrow> Result \<Rightarrow> 's run_state
    \<Rightarrow> string option \<times> 's run_state" where
  "runWriters ws result st = runWriters_from 0 ws result st"

text \<open>
  Modelled from the spec: \<open>islazy.SliceHasStr\<close> is not among the sources; the spec has
  the scheme of a target be one of \<open>allowed_schemes\<close>, so it tells whether the slice
  holds the string.
\<close>

definition SliceHasStr :: "string list \<Rightarrow> string \<Rightarrow> bool" where
  "SliceHasStr slice s = (s \<in> set slice)"

text \<open>
  \<open>checkUrl\<close>. \<open>url.ParseRequestURI\<close> is the standard library's; it is a parameter
  that returns the error or the scheme of the parsed URL.
\<close>

definition checkUrl :: "Options \<Rightarrow> (string \<Rightarrow> string + string) \<Rightarrow> string \<Rightarrow> string option" where
  "checkUrl opts ParseRequestURI target =
     (case ParseRequestURI target of
        Inl err \<Rightarrow> Some err
      | Inr scheme \<Rightarrow>
          if \<not> SliceHasStr (UriFilter (Scan opts)) scheme
          then Some ''url contains invalid scheme''
          else None)"

definition log_if :: "bool \<Rightarrow> log_entry \<Rightarrow> 's run_state \<Rightarrow> 's run_state" where
  "log_if b e st = (if b then st\<lparr>logs := logs st @ [e]\<rparr> else st)"

text \<open>
  The body of the worker's loop for one target received from \<open>run.Targets\<close>.
  \<open>Continue\<close> is the next iteration of the \<open>for\<close> loop (the source's \<open>continue\<close>, or
  the end of the body); \<open>Return\<close> ends the worker.
\<close>

datatype flow = Continue | Return

definition process_target :: "Options \<Rightarrow> (string \<Rightarrow> string + string) \<Rightarrow> 's Witness
    \<Rightarrow> 's Writer list \<Rightarrow> string \<Rightarrow> 's run_state \<Rightarrow> flow \<times> 's run_state" where
  "process_target opts ParseRequestURI witness ws target st =
     (case checkUrl opts ParseRequestURI target of
        Some err \<Rightarrow>
          (Continue, log_if (LogScanErrors (Logging opts)) (LError, ''invalid target to scan'', err) st)
      | None \<Rightarrow>
          (case witness target (world st) of
             (Inl (ChromeNotFoundError err), w') \<Rightarrow>
               (Return, (st\<lparr>world := w',
                             logs := logs st @ [(LError, ''no valid chrome intallation found'', err)],
                             cancelled := True\<rparr>))
           | (Inl (OtherError err), w') \<Rightarrow>
               (Continue, log_if (LogScanErrors (Logging opts))
                            (LError, ''failed to witness target'', err) (st\<lparr>world := w'\<rparr>))
           | (Inr result, w') \<Rightarrow>
               if ResponseCode result = 0
               then (Continue, log_if (LogScanErrors (Logging opts))
                                 (LError, ''failed to witness target, status code was 0'', target)
                                 (st\<lparr>world := w'\<rparr>))
               else
                 (case runWriters ws result (st\<lparr>world := w'\<rparr>) of
                    (Some err, st') \<Rightarrow>
                      (Continue, st'\<lparr>logs := logs st'
                          @ [(LError, ''failed to write result for target'', err),
                             (LInfo, ''result'', target)]\<rparr>)
                  | (None, st') \<Rightarrow>
                      (Continue, st'\<lparr>logs := logs st' @ [(LInfo, ''result'', target)]\<rparr>))))"

text \<open>
  One worker of \<open>Run\<close>, on the targets it receives from the channel, in order, until
  the channel is closed. The \<open>select\<close> leaves the loop when the context is done.
\<close>

fun worker :: "Options \<Rightarrow> (string \<Rightarrow> string + string) \<Rightarrow> 's Witness
    \<Rightarrow> 's Writer list \<Rightarrow> string list \<Rightarrow> 's run_state \<Rightarrow> 's run_state" where
  "worker opts ParseRequestURI witness ws [] st = st"
| "worker opts ParseRequestURI witness ws (target # targets) st =
     (if cancelled st then st
      else (case process_target opts ParseRequestURI witness ws target st of
              (Return, st') \<Rightarrow> st'
            | (Continue, st') \<Rightarrow> worker opts ParseRequestURI witness ws targets st'))"

text \<open>\<open>NewDefaultOptions\<close>; the fields it leaves out have Go's zero values.\<close>

definition NewDefaultOptions :: Options where
  "NewDefaultOptions = \<lparr>
     Logging = \<lparr>Debug = True, LogScanErrors = True, Silence = False\<rparr>,
     Chrome = \<lparr>Path = [], WSS = [], Proxy = [],
       UserAgent = ''Mozilla/5.0 (Macintosh; Intel Mac OS X 10_15_7) AppleWebKit/537.36 (KHTML, like Gecko) Chrome/128.0.0.0 Safari/537.36'',
       Chrome_Headers = [], WindowX = 1920, WindowY = 1080\<rparr>,
     Scan = \<lparr>Driver = ''chromedp'', Threads = 6, Timeout = 60, Delay = 0,
       UriFilter = [''http'', ''https''], SkipHTML = False, ScreenshotPath = [],
       ScreenshotFormat = ''jpeg'', ScreenshotFullPage = False, ScreenshotToWriter = False,
       ScreenshotSkipSave = False, JavaScript = [], JavaScriptFile = [], SaveContent = False,
       Selector = []\<rparr>\<rparr>"


section \<open>The drivers\<close>

subsection \<open>Functions of other packages\<close>

text \<open>
  The drivers call functions that are not part of the probe engine: \<open>strings.TrimSpace\<close>,
  \<open>islazy.Float64ToTime\<close>, \<open>islazy.SafeFileName\<close>, \<open>islazy.LeftTrucate\<close>,
  \<open>filepath.Join\<close> and \<open>base64.StdEncoding.EncodeToString\<close>. They are parameters of
  the model, so that what is proved holds whatever they compute.
\<close>

record lib =
  TrimSpace :: "string \<Rightarrow> string"
  Float64ToTime :: "TimeSinceEpoch \<Rightarrow> gotime"
  SafeFileName :: "string \<Rightarrow> string"
  LeftTrucate :: "string \<Rightarrow> nat \<Rightarrow> string"
  Join :: "string \<Rightarrow> string \<Rightarrow> string"
  EncodeToString :: "string \<Rightarrow> string"

subsection \<open>Extra headers\<close>

text \<open>
  \<open>strings.SplitN(header, ":", 2)\<close>: the text before the first colon and the text after
  it, or the whole string alone when it has no colon.
\<close>

definition SplitN_2 :: "string \<Rightarrow> string list" where
  "SplitN_2 s =
     (if CHR '':'' \<in> set s
      then [takeWhile (\<lambda>c. c \<noteq> CHR '':'') s, tl (dropWhile (\<lambda>c. c \<noteq> CHR '':'') s)]
      else [s])"

text \<open>
  The loop over \<open>run.options.Chrome.Headers\<close> of \<open>Chromedp.Witness\<close>, which fills a
  \<open>network.Headers\<close> map, and that of \<open>Gorod.Witness\<close>, which appends name and value to
  a slice. Both log a warning for a header that does not split in two and go on.
\<close>

fun chromedp_headers :: "lib \<Rightarrow> string list \<Rightarrow> (string \<rightharpoonup> string) \<times> log_entry list
    \<Rightarrow> (string \<rightharpoonup> string) \<times> log_entry list" where
  "chromedp_headers l [] (headers, lg) = (headers, lg)"
| "chromedp_headers l (header # hs) (headers, lg) =
     (case SplitN_2 header of
        [k, v] \<Rightarrow> chromedp_headers l hs (headers(TrimSpace l k \<mapsto> TrimSpace l v), lg)
      | _ \<Rightarrow> chromedp_headers l hs
               (headers, lg @ [(LWarn, ''custom header did not parse correctly'', header)]))"

fun gorod_headers :: "lib \<Rightarrow> string list \<Rightarrow> string list \<times> log_entry list
    \<Rightarrow> string list \<times> log_entry list" where
  "gorod_headers l [] (headers, lg) = (headers, lg)"
| "gorod_headers l (header # hs) (headers, lg) =
     (case SplitN_2 header of
        [k, v] \<Rightarrow> gorod_headers l hs (headers @ [TrimSpace l k, TrimSpace l v], lg)
      | _ \<Rightarrow> gorod_headers l hs
               (headers, lg @ [(LWarn, ''custom header did not parse correctly'', header)]))"

subsection \<open>DevTools events\<close>

text \<open>
  The events the listeners read, with the fields they read. A field the DevTools
  protocol requires is always there; a field it leaves optional, which the Go libraries
  declare as a pointer, is an \<open>option\<close>, \<open>None\<close> for nil. The two libraries define the
  request, failure, console and dialog events alike, as far as the drivers read them;
  the response events differ.

  A console argument is the text of its JSON value, \<open>None\<close> when it has none. The dialog
  event carries the error, if any, of the \<open>HandleJavaScriptDialog\<close> call that answers it.
  \<open>EncodedDataLength\<close>, a \<open>float64\<close> that the drivers convert to \<open>int64\<close>, is
  given converted.
\<close>

record EventRequestWillBeSent =
  rq_RequestID :: string
  rq_WallTime :: gotime
  rq_URL :: string

record EventLoadingFailed =
  lf_RequestID :: string
  lf_ErrorText :: string

record EventConsoleAPICalled =
  ca_Type :: string
  ca_Args :: "string option list"

text \<open>
  A header value: \<open>interface{}\<close> in cdproto, \<open>gson.JSON\<close> in go-rod. It is a string, or
  another JSON value, given by its printed form.
\<close>

datatype json_value = JString string | JOther string

text \<open>cdproto: \<open>network.SecurityDetails\<close>, \<open>network.Response\<close>, \<open>network.EventResponseReceived\<close>.\<close>

record cdp_SecurityDetails =
  csd_Protocol :: string
  csd_KeyExchange :: string
  csd_Cipher :: string
  csd_SubjectName :: string
  csd_SanList :: "string list"
  csd_Issuer :: string
  csd_ValidFrom :: "gotime option"
  csd_ValidTo :: "gotime option"
  csd_ServerSignatureAlgorithm :: int
  csd_EncryptedClientHello :: bool

record cdp_Response =
  cr_URL :: string
  cr_Status :: int
  cr_StatusText :: string
  cr_Protocol :: string
  cr_EncodedDataLength :: int
  cr_Headers :: "(string \<times> json_value) list"
  cr_SecurityDetails :: "cdp_SecurityDetails option"
  cr_RemoteIPAddress :: string
  cr_MimeType :: string
  cr_ResponseTime :: "gotime option"

record cdp_EventResponseReceived =
  crs_RequestID :: string
  crs_Response :: cdp_Response

text \<open>
  go-rod: \<open>proto.NetworkSecurityDetails\<close>, \<open>proto.NetworkResponse\<close>,
  \<open>proto.NetworkResponseReceived\<close>. Here the time stamps are values and
  \<open>ServerSignatureAlgorithm\<close> is a pointer.
\<close>

record rod_SecurityDetails =
  rsd_Protocol :: string
  rsd_KeyExchange :: string
  rsd_Cipher :: string
  rsd_SubjectName :: string
  rsd_SanList :: "string list"
  rsd_Issuer :: string
  rsd_ValidFrom :: TimeSinceEpoch
  rsd_ValidTo :: TimeSinceEpoch
  rsd_ServerSignatureAlgorithm :: "int option"
  rsd_EncryptedClientHello :: bool

record rod_Response =
  rr_URL :: string
  rr_Status :: int
  rr_StatusText :: string
  rr_Protocol :: string
  rr_EncodedDataLength :: int
  rr_Headers :: "(string \<times> json_value) list"
  rr_SecurityDetails :: "rod_SecurityDetails option"
  rr_RemoteIPAddress :: string
  rr_MIMEType :: string
  rr_ResponseTime :: TimeSinceEpoch

record rod_EventResponseReceived =
  rrs_RequestID :: string
  rrs_Response :: rod_Response

text \<open>
  An event as the listener receives it; \<open>'r\<close> is the library's response event.
  \<open>OtherEvent\<close> is any event no case of the listener matches.
\<close>

datatype 'r event =
    JavascriptDialogOpening "string option"
  | ConsoleAPICalled EventConsoleAPICalled
  | RequestWillBeSent EventRequestWillBeSent
  | ResponseReceived 'r
  | LoadingFailed EventLoadingFailed
  | OtherEvent

subsection \<open>The state of one probe\<close>

text \<open>
  What \<open>Witness\<close> and its listener share: the Result (\<open>p_result\<close>), \<open>first\<close> and
  \<open>netlog\<close>. With them
  go what the probe does to the outside: the lines logged (\<open>plogs\<close>), the calls of
  \<open>os.WriteFile\<close> with path and content (\<open>files\<close>), and the goroutines started to fetch
  a response body, each with the index of its entry in \<open>result.Network\<close> and its
  request id (\<open>fetches\<close>). Such a goroutine later stores the body in the \<open>Content\<close> field
  of its entry and changes nothing else; when it runs is not fixed by the program, and
  the model leaves \<open>Content\<close> as it is.

  A range over a Go map visits the keys in an order the language does not fix: the
  headers of a response are given as the list of pairs in the order the loop visits.
\<close>

record probe =
  p_result :: Result
  first :: "EventRequestWillBeSent option"
  netlog :: "string \<rightharpoonup> NetworkLog"
  fetches :: "(nat \<times> string) list"
  plogs :: "log_entry list"
  files :: "(string \<times> string) list"

definition new_probe :: "string \<Rightarrow> gotime \<Rightarrow> probe" where
  "new_probe target now = \<lparr>p_result = new_Result target now, first = None, netlog = Map.empty,
     fetches = [], plogs = [], files = []\<rparr>"

text \<open>A run-time panic of Go: it ends the whole program.\<close>

datatype panic = NilPointerDereference | InterfaceConversion

subsection \<open>The handlers both listeners have\<close>

text \<open>\<open>first != nil && first.RequestID == e.RequestID\<close>\<close>

definition is_first :: "probe \<Rightarrow> string \<Rightarrow> bool" where
  "is_first p request_id =
     (case first p of None \<Rightarrow> False | Some f \<Rightarrow> rq_RequestID f = request_id)"

definition on_ConsoleAPICalled :: "lib \<Rightarrow> EventConsoleAPICalled \<Rightarrow> probe \<Rightarrow> probe" where
  "on_ConsoleAPICalled l e p =
     (let v = concat (map (\<lambda>arg. case arg of None \<Rightarrow> [] | Some s \<Rightarrow> s) (ca_Args e))
      in if v = [] then p
         else p\<lparr>p_result := (p_result p)\<lparr>Console := Console (p_result p)
                  @ [\<lparr>con_Type = ''console.'' @ ca_Type e, con_Value = TrimSpace l v\<rparr>]\<rparr>\<rparr>)"

definition on_RequestWillBeSent :: "EventRequestWillBeSent \<Rightarrow> probe \<Rightarrow> probe" where
  "on_RequestWillBeSent e p =
     (let p1 = (if first p = None then p\<lparr>first := Some e\<rparr> else p)
      in p1\<lparr>netlog := (netlog p1)(rq_RequestID e \<mapsto>
            \<lparr>nl_Time = rq_WallTime e, nl_RequestType = HTTP, nl_URL = rq_URL e,
             nl_StatusCode = 0, nl_RemoteIP = [], nl_MIMEType = [], nl_Error = [],
             nl_Content = []\<rparr>)\<rparr>)"

definition on_LoadingFailed :: "EventLoadingFailed \<Rightarrow> probe \<Rightarrow> probe" where
  "on_LoadingFailed e p =
     (case netlog p (lf_RequestID e) of
        None \<Rightarrow> p
      | Some entry \<Rightarrow>
          if is_first p (lf_RequestID e)
          then p\<lparr>p_result := (p_result p)\<lparr>Failed := True, FailedReason := lf_ErrorText e\<rparr>\<rparr>
          else p\<lparr>p_result := (p_result p)\<lparr>Network := Network (p_result p)
                   @ [entry\<lparr>nl_Error := lf_ErrorText e\<rparr>]\<rparr>\<rparr>)"

text \<open>
  The end of both response handlers: the entry, updated from the response, is appended
  to \<open>result.Network\<close>, and a goroutine is started for the body when \<open>SaveContent\<close> is
  set.
\<close>

definition append_entry :: "Options \<Rightarrow> string \<Rightarrow> NetworkLog \<Rightarrow> probe \<Rightarrow> probe" where
  "append_entry opts request_id entry p =
     (let entryIndex = length (Network (p_result p));
          p1 = p\<lparr>p_result := (p_result p)\<lparr>Network := Network (p_result p) @ [entry]\<rparr>\<rparr>
      in if SaveContent (Scan opts)
         then p1\<lparr>fetches := fetches p1 @ [(entryIndex, request_id)]\<rparr>
         else p1)"

subsection \<open>The listener of Chromedp\<close>

text \<open>
  The loop that writes the headers: \<open>v.(string)\<close> panics on a value that is not a
  string.
\<close>

fun chromedp_write_headers :: "(string \<times> json_value) list \<Rightarrow> Header list \<Rightarrow> panic + Header list" where
  "chromedp_write_headers [] hs = Inr hs"
| "chromedp_write_headers ((k, JString v) # kvs) hs =
     chromedp_write_headers kvs (hs @ [\<lparr>hdr_Key = k, hdr_Value = v\<rparr>])"
| "chromedp_write_headers ((k, JOther v) # kvs) hs = Inl InterfaceConversion"

definition chromedp_TLS :: "cdp_SecurityDetails \<Rightarrow> TLS" where
  "chromedp_TLS sd =
     (let sanlist = map (\<lambda>san. \<lparr>san_Value = san\<rparr>) (csd_SanList sd);
          validFromTime = (case csd_ValidFrom sd of None \<Rightarrow> ZeroTime | Some t \<Rightarrow> t);
          validToTime = (case csd_ValidTo sd of None \<Rightarrow> ZeroTime | Some t \<Rightarrow> t)
      in \<lparr>tls_Protocol = csd_Protocol sd, tls_KeyExchange = csd_KeyExchange sd,
          tls_Cipher = csd_Cipher sd, tls_SubjectName = csd_SubjectName sd,
          tls_SanList = sanlist, tls_Issuer = csd_Issuer sd,
          tls_ValidFrom = validFromTime, tls_ValidTo = validToTime,
          tls_ServerSignatureAlgorithm = csd_ServerSignatureAlgorithm sd,
          tls_EncryptedClientHello = csd_EncryptedClientHello sd\<rparr>)"

text \<open>The branch of the first request: the top-level fields of the Result.\<close>

definition chromedp_first_response :: "cdp_Response \<Rightarrow> Result \<Rightarrow> panic + Result" where
  "chromedp_first_response resp r =
     (let r1 = r\<lparr>FinalURL := cr_URL resp, ResponseCode := cr_Status resp,
                 ResponseReason := cr_StatusText resp, Protocol := cr_Protocol resp,
                 ContentLength := cr_EncodedDataLength resp\<rparr>
      in case chromedp_write_headers (cr_Headers resp) (Headers r1) of
           Inl x \<Rightarrow> Inl x
         | Inr hs \<Rightarrow>
             (case cr_SecurityDetails resp of
                None \<Rightarrow> Inr (r1\<lparr>Headers := hs\<rparr>)
              | Some sd \<Rightarrow> Inr (r1\<lparr>Headers := hs, TLS := chromedp_TLS sd\<rparr>)))"

definition chromedp_ResponseReceived :: "Options \<Rightarrow> cdp_EventResponseReceived \<Rightarrow> probe
    \<Rightarrow> panic + probe" where
  "chromedp_ResponseReceived opts e p =
     (case netlog p (crs_RequestID e) of
        None \<Rightarrow> Inr p
      | Some entry \<Rightarrow>
          (case (if is_first p (crs_RequestID e)
                 then chromedp_first_response (crs_Response e) (p_result p)
                 else Inr (p_result p)) of
             Inl x \<Rightarrow> Inl x
           | Inr r \<Rightarrow>
               Inr (append_entry opts (crs_RequestID e)
                     (entry\<lparr>nl_StatusCode := cr_Status (crs_Response e),
                            nl_URL := cr_URL (crs_Response e),
                            nl_RemoteIP := cr_RemoteIPAddress (crs_Response e),
                            nl_MIMEType := cr_MimeType (crs_Response e),
                            nl_Time := (case cr_ResponseTime (crs_Response e) of
                                          None \<Rightarrow> nl_Time entry | Some t \<Rightarrow> t)\<rparr>)
                     (p\<lparr>p_result := r\<rparr>))))"

definition chromedp_handle :: "lib \<Rightarrow> Options \<Rightarrow> cdp_EventResponseReceived event \<Rightarrow> probe
    \<Rightarrow> panic + probe" where
  "chromedp_handle l opts ev p =
     (case ev of
        JavascriptDialogOpening err \<Rightarrow>
          (case err of
             None \<Rightarrow> Inr p
           | Some msg \<Rightarrow>
               Inr (p\<lparr>plogs := plogs p @ [(LError, ''failed to handle a javascript dialog'', msg)]\<rparr>))
      | ConsoleAPICalled e \<Rightarrow> Inr (on_ConsoleAPICalled l e p)
      | RequestWillBeSent e \<Rightarrow> Inr (on_RequestWillBeSent e p)
      | ResponseReceived e \<Rightarrow> chromedp_ResponseReceived opts e p
      | LoadingFailed e \<Rightarrow> Inr (on_LoadingFailed e p)
      | OtherEvent \<Rightarrow> Inr p)"

text \<open>The listener on a sequence of events, in the order they arrive.\<close>

fun chromedp_listen :: "lib \<Rightarrow> Options \<Rightarrow> cdp_EventResponseReceived event list \<Rightarrow> probe
    \<Rightarrow> panic + probe" where
  "chromedp_listen l opts [] p = Inr p"
| "chromedp_listen l opts (ev # evs) p =
     (case chromedp_handle l opts ev p of
        Inl x \<Rightarrow> Inl x
      | Inr p' \<Rightarrow> chromedp_listen l opts evs p')"

subsection \<open>The listener of Gorod\<close>

text \<open>\<open>v.Str()\<close> gives the string, and the printed form of a value that is no string.\<close>

fun Str :: "json_value \<Rightarrow> string" where
  "Str (JString s) = s"
| "Str (JOther s) = s"

definition gorod_write_headers :: "(string \<times> json_value) list \<Rightarrow> Header list \<Rightarrow> Header list" where
  "gorod_write_headers kvs hs = hs @ map (\<lambda>(k, v). \<lparr>hdr_Key = k, hdr_Value = Str v\<rparr>) kvs"

text \<open>
  \<open>*e.Response.SecurityDetails.ServerSignatureAlgorithm\<close> dereferences the pointer, and
  panics when it is nil.
\<close>

definition gorod_TLS :: "lib \<Rightarrow> rod_SecurityDetails \<Rightarrow> panic + TLS" where
  "gorod_TLS l sd =
     (let sanlist = map (\<lambda>san. \<lparr>san_Value = san\<rparr>) (rsd_SanList sd)
      in case rsd_ServerSignatureAlgorithm sd of
           None \<Rightarrow> Inl NilPointerDereference
         | Some alg \<Rightarrow>
             Inr \<lparr>tls_Protocol = rsd_Protocol sd, tls_KeyExchange = rsd_KeyExchange sd,
                  tls_Cipher = rsd_Cipher sd, tls_SubjectName = rsd_SubjectName sd,
                  tls_SanList = sanlist, tls_Issuer = rsd_Issuer sd,
                  tls_ValidFrom = Float64ToTime l (rsd_ValidFrom sd),
                  tls_ValidTo = Float64ToTime l (rsd_ValidTo sd),
                  tls_ServerSignatureAlgorithm = alg,
                  tls_EncryptedClientHello = rsd_EncryptedClientHello sd\<rparr>)"

definition gorod_first_response :: "lib \<Rightarrow> rod_Response \<Rightarrow> Result \<Rightarrow> panic + Result" where
  "gorod_first_response l resp r =
     (let r1 = r\<lparr>FinalURL := rr_URL resp, ResponseCode := rr_Status resp,
                 ResponseReason := rr_StatusText resp, Protocol := rr_Protocol resp,
                 ContentLength := rr_EncodedDataLength resp\<rparr>;
          r2 = r1\<lparr>Headers := gorod_write_headers (rr_Headers resp) (Headers r1)\<rparr>
      in case rr_SecurityDetails resp of
           None \<Rightarrow> Inr r2
         | Some sd \<Rightarrow>
             (case gorod_TLS l sd of
                Inl x \<Rightarrow> Inl x
              | Inr t \<Rightarrow> Inr (r2\<lparr>TLS := t\<rparr>)))"

definition gorod_ResponseReceived :: "lib \<Rightarrow> Options \<Rightarrow> rod_EventResponseReceived \<Rightarrow> probe
    \<Rightarrow> panic + probe" where
  "gorod_ResponseReceived l opts e p =
     (case netlog p (rrs_RequestID e) of
        None \<Rightarrow> Inr p
      | Some entry \<Rightarrow>
          (case (if is_first p (rrs_RequestID e)
                 then gorod_first_response l (rrs_Response e) (p_result p)
                 else Inr (p_result p)) of
             Inl x \<Rightarrow> Inl x
           | Inr r \<Rightarrow>
               Inr (append_entry opts (rrs_RequestID e)
                     (entry\<lparr>nl_StatusCode := rr_Status (rrs_Response e),
                            nl_URL := rr_URL (rrs_Response e),
                            nl_RemoteIP := rr_RemoteIPAddress (rrs_Response e),
                            nl_MIMEType := rr_MIMEType (rrs_Response e),
                            nl_Time := At (rr_ResponseTime (rrs_Response e))\<rparr>)
                     (p\<lparr>p_result := r\<rparr>))))"

definition gorod_handle :: "lib \<Rightarrow> Options \<Rightarrow> rod_EventResponseReceived event \<Rightarrow> probe
    \<Rightarrow> panic + probe" where
  "gorod_handle l opts ev p =
     (case ev of
        JavascriptDialogOpening err \<Rightarrow> Inr p
      | ConsoleAPICalled e \<Rightarrow> Inr (on_ConsoleAPICalled l e p)
      | RequestWillBeSent e \<Rightarrow> Inr (on_RequestWillBeSent e p)
      | ResponseReceived e \<Rightarrow> gorod_ResponseReceived l opts e p
      | LoadingFailed e \<Rightarrow> Inr (on_LoadingFailed e p)
      | OtherEvent \<Rightarrow> Inr p)"

text \<open>
  \<open>page.EachEvent\<close> calls the callback of the event's type, if there is one, and stops
  listening when the callback returns true. Every callback returns \<open>dismissEvents\<close>:
  once that is set, the next event with a callback is still handled, and is the last.
\<close>

fun gorod_listen :: "lib \<Rightarrow> Options \<Rightarrow> bool \<Rightarrow> rod_EventResponseReceived event list \<Rightarrow> probe
    \<Rightarrow> panic + probe" where
  "gorod_listen l opts dismissEvents [] p = Inr p"
| "gorod_listen l opts dismissEvents (OtherEvent # evs) p =
     gorod_listen l opts dismissEvents evs p"
| "gorod_listen l opts dismissEvents (ev # evs) p =
     (case gorod_handle l opts ev p of
        Inl x \<Rightarrow> Inl x
      | Inr p' \<Rightarrow> if dismissEvents then Inr p' else gorod_listen l opts dismissEvents evs p')"


subsection \<open>The browser\<close>

text \<open>
  \<open>Witness\<close> drives a browser, and what the browser answers is not decided by the
  program: the answers are given as an environment, one field for each call. A call
  that can fail gives its error or its value.

  The listener runs beside the steps of \<open>Witness\<close>. The model lets it handle, before
  each step that waits for the browser, the events that arrive during that step
  (\<open>b_events\<close>), so that the events of a probe can fall anywhere between the steps.

  \<open>b_navigate\<close> tells \<open>context.DeadlineExceeded\<close> from any other error, as \<open>Chromedp\<close>
  does. \<open>b_fingerprint\<close> is \<open>Wappalyzer.Fingerprint\<close> on \<open>result.HeaderMap()\<close> and the
  HTML, with the technologies in the order the range over its map gives them.
  \<open>b_get_cookies\<close> gives the cookies as \<open>models.Cookie\<close>, that is after the field by
  field copy the drivers make. \<open>b_Decode\<close> and \<open>b_PerceptionHash\<close> stand for
  \<open>image.Decode\<close> and \<open>goimagehash.PerceptionHash\<close> with \<open>ToString\<close>, on the bytes of
  the image.
\<close>

datatype stage = Navigating | Sleeping | Evaluating | ReadingCookies | ReadingTitle
  | ReadingHTML | Capturing

datatype nav_error = DeadlineExceeded | NavError string

fun nav_error_text :: "nav_error \<Rightarrow> string" where
  "nav_error_text DeadlineExceeded = ''context deadline exceeded''"
| "nav_error_text (NavError msg) = msg"

text \<open>
  The error of \<open>chromedp.Run(navigationCtx, network.Enable())\<close>: an \<open>exec.Error\<close> whose
  cause is \<open>exec.ErrNotFound\<close>, or another one.
\<close>

datatype run_error = ExecNotFound string | RunError string

record 'r page_env =
  b_now :: gotime
  b_events :: "stage \<Rightarrow> 'r event list"
  b_navigate :: "nav_error option"
  b_evaluate :: "string \<Rightarrow> string option"
  b_get_cookies :: "string + Cookie list"
  b_get_title :: "string + string"
  b_get_html :: "string + string"
  b_fingerprint :: "Result \<Rightarrow> string list"
  b_WriteFile :: "string \<Rightarrow> string \<Rightarrow> string option"
  b_Decode :: "string \<Rightarrow> string option"
  b_PerceptionHash :: "string \<Rightarrow> string + string"

record cdp_env = "cdp_EventResponseReceived page_env" +
  c_MkdirTemp :: "string option"
  c_network_Enable :: "run_error option"
  c_SetExtraHTTPHeaders :: "(string \<rightharpoonup> string) \<Rightarrow> string option"
  c_WaitVisible :: "string \<Rightarrow> string option"
  c_scrollHeight :: "string \<Rightarrow> string + int"
  c_SetDeviceMetricsOverride :: "int \<Rightarrow> int \<Rightarrow> string option"
  c_ScrollIntoView :: "string \<Rightarrow> string option"
  c_Screenshot :: "string \<Rightarrow> string + string"
  c_CaptureScreenshot :: "string \<Rightarrow> bool \<Rightarrow> string + string"

record rod_env = "rod_EventResponseReceived page_env" +
  g_Page :: "string option"
  g_SetViewport :: "int \<Rightarrow> int \<Rightarrow> string option"
  g_SetUserAgent :: "string \<Rightarrow> string option"
  g_SetExtraHeaders :: "string list \<Rightarrow> string option"
  g_Screenshot :: "bool \<Rightarrow> string \<times> int option \<Rightarrow> string + string"

subsection \<open>The steps of a probe\<close>

text \<open>
  How a step ends: \<open>Ok\<close>, and \<open>Witness\<close> goes on; \<open>Err\<close>, and \<open>Witness\<close> returns that
  error and no Result; \<open>Panic\<close>, when the listener panicked. \<open>Witness\<close> is the sequence
  of its steps, and returns its Result with a nil error when the last step ends \<open>Ok\<close>.
\<close>

datatype outcome = Ok | Err witness_error | Panic panic

type_synonym step = "probe \<Rightarrow> outcome \<times> probe"

fun run_steps :: "step list \<Rightarrow> step" where
  "run_steps [] p = (Ok, p)"
| "run_steps (s # ss) p =
     (case s p of
        (Ok, p') \<Rightarrow> run_steps ss p'
      | (Err e, p') \<Rightarrow> (Err e, p')
      | (Panic x, p') \<Rightarrow> (Panic x, p'))"

definition plog :: "log_entry \<Rightarrow> probe \<Rightarrow> probe" where
  "plog e p = p\<lparr>plogs := plogs p @ [e]\<rparr>"

definition plog_if :: "bool \<Rightarrow> log_entry \<Rightarrow> probe \<Rightarrow> probe" where
  "plog_if b e p = (if b then plog e p else p)"

text \<open>The steps that are the same text in both drivers.\<close>

definition delay_step :: "Options \<Rightarrow> step" where
  "delay_step opts p = (Ok, p)"

definition cookies_step :: "Options \<Rightarrow> ('r, 'x) page_env_scheme \<Rightarrow> step" where
  "cookies_step opts env p =
     (case b_get_cookies env of
        Inl err \<Rightarrow>
          (Ok, plog_if (LogScanErrors (Logging opts)) (LError, ''could not get cookies'', err) p)
      | Inr cookies \<Rightarrow>
          (Ok, p\<lparr>p_result := (p_result p)\<lparr>Cookies := Cookies (p_result p) @ cookies\<rparr>\<rparr>))"

definition fingerprint_step :: "('r, 'x) page_env_scheme \<Rightarrow> step" where
  "fingerprint_step env p =
     (Ok, p\<lparr>p_result := (p_result p)\<lparr>Technologies := Technologies (p_result p)
              @ map (\<lambda>tech. \<lparr>tech_Value = tech\<rparr>) (b_fingerprint env (p_result p))\<rparr>\<rparr>)"

text \<open>
  What follows the capture of the screenshot, the same in both drivers: \<open>captured\<close> is
  the error of the capture, or the image.
\<close>

definition hash_step :: "('r, 'x) page_env_scheme \<Rightarrow> string \<Rightarrow> step" where
  "hash_step env img p =
     (case b_Decode env img of
        Some err \<Rightarrow> (Err (OtherError (''failed to decode screenshot image: '' @ err)), p)
      | None \<Rightarrow>
          (case b_PerceptionHash env img of
             Inl err \<Rightarrow>
               (Err (OtherError (''failed to calculate image perception hash: '' @ err)), p)
           | Inr hash \<Rightarrow> (Ok, p\<lparr>p_result := (p_result p)\<lparr>PerceptionHash := hash\<rparr>\<rparr>)))"

definition screenshot_step :: "lib \<Rightarrow> Options \<Rightarrow> ('r, 'x) page_env_scheme \<Rightarrow> string
    \<Rightarrow> string + string \<Rightarrow> step" where
  "screenshot_step l opts env target captured p =
     (case captured of
        Inl err \<Rightarrow>
          (let p1 = plog_if (LogScanErrors (Logging opts))
                      (LError, ''could not grab screenshot'', err) p
           in (Ok, p1\<lparr>p_result := (p_result p1)\<lparr>Failed := True, FailedReason := err\<rparr>\<rparr>))
      | Inr img \<Rightarrow>
          (let p1 = (if ScreenshotToWriter (Scan opts)
                     then p\<lparr>p_result := (p_result p)\<lparr>Screenshot := EncodeToString l img\<rparr>\<rparr>
                     else p)
           in if \<not> ScreenshotSkipSave (Scan opts)
              then
                (let name = LeftTrucate l
                              (SafeFileName l target @ ''.'' @ ScreenshotFormat (Scan opts)) 200;
                     path = Join l (ScreenshotPath (Scan opts)) name;
                     p2 = p1\<lparr>p_result := (p_result p1)\<lparr>Filename := name\<rparr>,
                             files := files p1 @ [(path, img)]\<rparr>
                 in case b_WriteFile env path img of
                      Some err \<Rightarrow>
                        (Err (OtherError (''could not write screenshot to disk: '' @ err)), p2)
                    | None \<Rightarrow> hash_step env img p2)
              else hash_step env img p1))"

subsection \<open>\<open>Chromedp.Witness\<close>\<close>

definition chromedp_allocator_step :: "Options \<Rightarrow> cdp_env \<Rightarrow> step" where
  "chromedp_allocator_step opts env p =
     (if WSS (Chrome opts) = []
      then (case c_MkdirTemp env of
              Some err \<Rightarrow> (Err (OtherError err), p)
            | None \<Rightarrow> (Ok, p))
      else (Ok, p))"

definition chromedp_enable_step :: "cdp_env \<Rightarrow> step" where
  "chromedp_enable_step env p =
     (case c_network_Enable env of
        None \<Rightarrow> (Ok, p)
      | Some (ExecNotFound err) \<Rightarrow> (Err (ChromeNotFoundError err), p)
      | Some (RunError err) \<Rightarrow>
          (Err (OtherError (''error enabling network tracking: '' @ err)), p))"

definition chromedp_headers_step :: "lib \<Rightarrow> Options \<Rightarrow> cdp_env \<Rightarrow> step" where
  "chromedp_headers_step l opts env p =
     (if length (Chrome_Headers (Chrome opts)) > 0
      then (case chromedp_headers l (Chrome_Headers (Chrome opts)) (Map.empty, plogs p) of
              (headers, lg) \<Rightarrow>
                (case c_SetExtraHTTPHeaders env headers of
                   Some err \<Rightarrow>
                     (Err (OtherError (''could not set extra http headers: '' @ err)),
                      p\<lparr>plogs := lg\<rparr>)
                 | None \<Rightarrow> (Ok, p\<lparr>plogs := lg\<rparr>)))
      else (Ok, p))"

definition chromedp_listen_step :: "lib \<Rightarrow> Options \<Rightarrow> cdp_env \<Rightarrow> stage \<Rightarrow> step" where
  "chromedp_listen_step l opts env stage p =
     (case chromedp_listen l opts (b_events env stage) p of
        Inl x \<Rightarrow> (Panic x, p)
      | Inr p' \<Rightarrow> (Ok, p'))"

text \<open>\<open>err != nil && err != context.DeadlineExceeded\<close>\<close>

definition chromedp_navigate_step :: "cdp_env \<Rightarrow> step" where
  "chromedp_navigate_step env p =
     (case b_navigate env of
        None \<Rightarrow> (Ok, p)
      | Some DeadlineExceeded \<Rightarrow> (Ok, p)
      | Some (NavError err) \<Rightarrow>
          (Err (OtherError (''could not navigate to target: '' @ err)), p))"

definition chromedp_javascript_step :: "Options \<Rightarrow> cdp_env \<Rightarrow> step" where
  "chromedp_javascript_step opts env p =
     (if JavaScript (Scan opts) \<noteq> []
      then (case b_evaluate env (JavaScript (Scan opts)) of
              Some err \<Rightarrow>
                (Err (OtherError (''failed to evaluate user-provided javascript: '' @ err)), p)
            | None \<Rightarrow> (Ok, p))
      else (Ok, p))"

definition chromedp_title_step :: "Options \<Rightarrow> cdp_env \<Rightarrow> step" where
  "chromedp_title_step opts env p =
     (case b_get_title env of
        Inl err \<Rightarrow>
          (Ok, plog_if (LogScanErrors (Logging opts)) (LError, ''could not get page title'', err) p)
      | Inr title \<Rightarrow> (Ok, p\<lparr>p_result := (p_result p)\<lparr>Title := title\<rparr>\<rparr>))"

definition chromedp_html_step :: "Options \<Rightarrow> cdp_env \<Rightarrow> step" where
  "chromedp_html_step opts env p =
     (if \<not> SkipHTML (Scan opts)
      then (case b_get_html env of
              Inl err \<Rightarrow>
                (Ok, plog_if (LogScanErrors (Logging opts))
                       (LError, ''could not get page html'', err) p)
            | Inr html \<Rightarrow> (Ok, p\<lparr>p_result := (p_result p)\<lparr>HTML := html\<rparr>\<rparr>))
      else (Ok, p))"

text \<open>
  The capture. With a selector, \<open>chromedp.Run\<close> runs three actions and stops at the
  first error: wait for the element, make room for it or scroll to it, take the
  screenshot of the element. The lines the source prints to standard output there are
  left out. \<open>scrollHeight\<close> is a \<open>float64\<close> holding an integer.
\<close>

definition chromedp_capture :: "Options \<Rightarrow> cdp_env \<Rightarrow> string + string" where
  "chromedp_capture opts env =
     (if Selector (Scan opts) \<noteq> []
      then (case c_WaitVisible env (Selector (Scan opts)) of
              Some err \<Rightarrow> Inl err
            | None \<Rightarrow>
                (case c_scrollHeight env (Selector (Scan opts)) of
                   Inl err \<Rightarrow> Inl err
                 | Inr scrollHeight \<Rightarrow>
                     (case (if ScreenshotFullPage (Scan opts)
                               \<and> scrollHeight > WindowY (Chrome opts)
                            then c_SetDeviceMetricsOverride env (WindowX (Chrome opts)) scrollHeight
                            else c_ScrollIntoView env (Selector (Scan opts))) of
                        Some err \<Rightarrow> Inl err
                      | None \<Rightarrow> c_Screenshot env (Selector (Scan opts)))))
      else c_CaptureScreenshot env (ScreenshotFormat (Scan opts))
             (ScreenshotFullPage (Scan opts)))"

text \<open>The steps up to the capture of the screenshot.\<close>

definition chromedp_page_steps :: "lib \<Rightarrow> Options \<Rightarrow> cdp_env \<Rightarrow> step list" where
  "chromedp_page_steps l opts env =
     [chromedp_allocator_step opts env,
      chromedp_enable_step env,
      chromedp_headers_step l opts env,
      chromedp_listen_step l opts env Navigating,
      chromedp_navigate_step env,
      chromedp_listen_step l opts env Sleeping,
      delay_step opts,
      chromedp_listen_step l opts env Evaluating,
      chromedp_javascript_step opts env,
      chromedp_listen_step l opts env ReadingCookies,
      cookies_step opts env,
      chromedp_listen_step l opts env ReadingTitle,
      chromedp_title_step opts env,
      chromedp_listen_step l opts env ReadingHTML,
      chromedp_html_step opts env,
      fingerprint_step env,
      chromedp_listen_step l opts env Capturing]"

definition start_probe :: "string \<Rightarrow> gotime \<Rightarrow> probe" where
  "start_probe target now = plog (LDebug, ''witnessing'', target) (new_probe target now)"

definition Chromedp_Witness :: "lib \<Rightarrow> Options \<Rightarrow> cdp_env \<Rightarrow> string \<Rightarrow> outcome \<times> probe" where
  "Chromedp_Witness l opts env target =
     run_steps (chromedp_page_steps l opts env
                @ [screenshot_step l opts env target (chromedp_capture opts env)])
       (start_probe target (b_now env))"

subsection \<open>\<open>Gorod.Witness\<close>\<close>

definition gorod_page_step :: "rod_env \<Rightarrow> step" where
  "gorod_page_step env p =
     (case g_Page env of
        Some err \<Rightarrow> (Err (OtherError (''could not get a page: '' @ err)), p)
      | None \<Rightarrow> (Ok, p))"

definition gorod_viewport_step :: "Options \<Rightarrow> rod_env \<Rightarrow> step" where
  "gorod_viewport_step opts env p =
     (if WindowX (Chrome opts) > 0 \<and> WindowY (Chrome opts) > 0
      then (case g_SetViewport env (WindowX (Chrome opts)) (WindowY (Chrome opts)) of
              Some err \<Rightarrow> (Err (OtherError (''unable to set viewport: '' @ err)), p)
            | None \<Rightarrow> (Ok, p))
      else (Ok, p))"

definition gorod_user_agent_step :: "Options \<Rightarrow> rod_env \<Rightarrow> step" where
  "gorod_user_agent_step opts env p =
     (case g_SetUserAgent env (UserAgent (Chrome opts)) of
        Some err \<Rightarrow> (Err (OtherError (''unable to set user-agent string: '' @ err)), p)
      | None \<Rightarrow> (Ok, p))"

definition gorod_headers_step :: "lib \<Rightarrow> Options \<Rightarrow> rod_env \<Rightarrow> step" where
  "gorod_headers_step l opts env p =
     (if length (Chrome_Headers (Chrome opts)) > 0
      then (case gorod_headers l (Chrome_Headers (Chrome opts)) ([], plogs p) of
              (headers, lg) \<Rightarrow>
                (case g_SetExtraHeaders env headers of
                   Some err \<Rightarrow>
                     (Err (OtherError (''could not set extra headers for page: '' @ err)),
                      p\<lparr>plogs := lg\<rparr>)
                 | None \<Rightarrow> (Ok, p\<lparr>plogs := lg\<rparr>)))
      else (Ok, p))"

definition gorod_listen_step :: "lib \<Rightarrow> Options \<Rightarrow> rod_env \<Rightarrow> bool \<Rightarrow> stage \<Rightarrow> step" where
  "gorod_listen_step l opts env dismissEvents stage p =
     (case gorod_listen l opts dismissEvents (b_events env stage) p of
        Inl x \<Rightarrow> (Panic x, p)
      | Inr p' \<Rightarrow> (Ok, p'))"

text \<open>\<open>page.Navigate\<close>: any error is returned, the expiry of the deadline too.\<close>

definition gorod_navigate_step :: "rod_env \<Rightarrow> step" where
  "gorod_navigate_step env p =
     (case b_navigate env of
        None \<Rightarrow> (Ok, p)
      | Some err \<Rightarrow>
          (Err (OtherError (''could not navigate to target: '' @ nav_error_text err)), p))"

definition gorod_javascript_step :: "Options \<Rightarrow> rod_env \<Rightarrow> step" where
  "gorod_javascript_step opts env p =
     (if JavaScript (Scan opts) \<noteq> []
      then (case b_evaluate env (JavaScript (Scan opts)) of
              Some err \<Rightarrow>
                (Ok, plog (LWarn, ''failed to evaluate user-provided javascript'', err) p)
            | None \<Rightarrow> (Ok, p))
      else (Ok, p))"

definition gorod_info_step :: "Options \<Rightarrow> rod_env \<Rightarrow> step" where
  "gorod_info_step opts env p =
     (case b_get_title env of
        Inl err \<Rightarrow>
          (Ok, plog_if (LogScanErrors (Logging opts)) (LError, ''could not get page info'', err) p)
      | Inr title \<Rightarrow> (Ok, p\<lparr>p_result := (p_result p)\<lparr>Title := title\<rparr>\<rparr>))"

definition gorod_html_step :: "Options \<Rightarrow> rod_env \<Rightarrow> step" where
  "gorod_html_step opts env p =
     (if \<not> SkipHTML (Scan opts)
      then (case b_get_html env of
              Inl err \<Rightarrow>
                (Ok, plog_if (LogScanErrors (Logging opts))
                       (LError, ''could not get page html'', err) p)
            | Inr html \<Rightarrow> (Ok, p\<lparr>p_result := (p_result p)\<lparr>HTML := html\<rparr>\<rparr>))
      else (Ok, p))"

text \<open>
  The \<open>switch\<close> on the format that fills \<open>screenshotOptions\<close> (format and quality), and
  the capture.
\<close>

definition gorod_screenshotOptions :: "Options \<Rightarrow> string \<times> int option" where
  "gorod_screenshotOptions opts =
     (if ScreenshotFormat (Scan opts) = ''jpeg'' then (''jpeg'', Some 80)
      else if ScreenshotFormat (Scan opts) = ''png'' then (''png'', None)
      else ([], None))"

definition gorod_capture :: "Options \<Rightarrow> rod_env \<Rightarrow> string + string" where
  "gorod_capture opts env =
     g_Screenshot env (ScreenshotFullPage (Scan opts)) (gorod_screenshotOptions opts)"

definition gorod_debug_step :: step where
  "gorod_debug_step p = (Ok, plog (LDebug, ''taking a screenshot'', []) p)"

definition gorod_page_steps :: "lib \<Rightarrow> Options \<Rightarrow> rod_env \<Rightarrow> step list" where
  "gorod_page_steps l opts env =
     [gorod_page_step env,
      gorod_viewport_step opts env,
      gorod_user_agent_step opts env,
      gorod_headers_step l opts env,
      gorod_listen_step l opts env False Navigating,
      gorod_navigate_step env,
      gorod_listen_step l opts env False Sleeping,
      delay_step opts,
      gorod_listen_step l opts env False Evaluating,
      gorod_javascript_step opts env,
      gorod_listen_step l opts env False ReadingCookies,
      cookies_step opts env,
      gorod_listen_step l opts env False ReadingTitle,
      gorod_info_step opts env,
      gorod_listen_step l opts env False ReadingHTML,
      gorod_html_step opts env,
      fingerprint_step env,
      gorod_debug_step,
      gorod_listen_step l opts env True Capturing]"

definition Gorod_Witness :: "lib \<Rightarrow> Options \<Rightarrow> rod_env \<Rightarrow> string \<Rightarrow> outcome \<times> probe" where
  "Gorod_Witness l opts env target =
     run_steps (gorod_page_steps l opts env
                @ [screenshot_step l opts env target (gorod_capture opts env)])
       (start_probe target (b_now env))"


section \<open>Notions the properties are stated with\<close>

text \<open>
  The top-level fields of a Result, which the response to the first request fills;
  the first \<open>requestWillBeSent\<close> event of a sequence of events; and what holds of
  \<open>first\<close> and \<open>netlog\<close> in every state the listener reaches: the first request, once
  seen, has an entry in \<open>netlog\<close>, no entry is there before it, and an entry of
  \<open>netlog\<close> carries no error text.
\<close>

definition top_level :: "Result \<Rightarrow> string \<times> int \<times> string \<times> string \<times> Header list \<times> TLS" where
  "top_level r = (FinalURL r, ResponseCode r, ResponseReason r, Protocol r, Headers r, TLS r)"

fun first_request :: "'r event list \<Rightarrow> EventRequestWillBeSent option" where
  "first_request [] = None"
| "first_request (RequestWillBeSent e # evs) = Some e"
| "first_request (ev # evs) = first_request evs"

definition wf_probe :: "probe \<Rightarrow> bool" where
  "wf_probe p =
     ((first p = None \<longrightarrow> netlog p = Map.empty)
      \<and> (\<forall>f. first p = Some f \<longrightarrow> netlog p (rq_RequestID f) \<noteq> None)
      \<and> (\<forall>rid entry. netlog p rid = Some entry \<longrightarrow> nl_Error entry = []))"

text \<open>
  A handler run over a sequence of events, as both listeners do while \<open>dismissEvents\<close>
  is not set; and what a later state of a probe keeps of an earlier one: the entries
  of \<open>Network\<close> are only appended to, an entry of \<open>netlog\<close> is never removed, \<open>first\<close>
  stays once it is set, and the listener leaves the files, the screenshot, its file
  name and its hash alone.
\<close>

fun run_handler :: "('e \<Rightarrow> probe \<Rightarrow> panic + probe) \<Rightarrow> 'e list \<Rightarrow> probe \<Rightarrow> panic + probe" where
  "run_handler h [] p = Inr p"
| "run_handler h (ev # evs) p =
     (case h ev p of Inl x \<Rightarrow> Inl x | Inr p' \<Rightarrow> run_handler h evs p')"

definition extends :: "probe \<Rightarrow> probe \<Rightarrow> bool" where
  "extends p q =
     ((\<exists>ns. Network (p_result q) = Network (p_result p) @ ns)
      \<and> (\<forall>rid. netlog p rid \<noteq> None \<longrightarrow> netlog q rid \<noteq> None)
      \<and> (first p \<noteq> None \<longrightarrow> first q = first p)
      \<and> (wf_probe p \<longrightarrow> wf_probe q)
      \<and> files q = files p
      \<and> PerceptionHash (p_result q) = PerceptionHash (p_result p)
      \<and> Screenshot (p_result q) = Screenshot (p_result p)
      \<and> Filename (p_result q) = Filename (p_result p))"


section \<open>Values the examples run on\<close>

text \<open>
  A stand-in for \<open>url.ParseRequestURI\<close> that knows two schemes, a driver that answers
  every target with status 200 and one that never gets a response, a writer that
  succeeds and one that fails. The world counts the writes that succeeded.
\<close>

definition parse_example :: "string \<Rightarrow> string + string" where
  "parse_example target =
     (if take 7 target = ''http://'' then Inr ''http''
      else if take 7 target = ''file://'' then Inr ''file''
      else Inl ''invalid URI for request'')"

definition witness_200 :: "nat Witness" where
  "witness_200 target w = (Inr ((new_Result target ZeroTime)\<lparr>ResponseCode := 200\<rparr>), w)"


definition writer_ok :: "nat Writer" where
  "writer_ok result w = (None, Suc w)"

definition writer_failing :: "nat Writer" where
  "writer_failing result w = (Some ''database is locked'', w)"

definition run_state0 :: "nat run_state" where
  "run_state0 = \<lparr>world = 0, logs = [], written = [], cancelled = False\<rparr>"

text \<open>
  Stand-ins for the functions of other packages: \<open>TrimSpace_ascii\<close> is
  \<open>strings.TrimSpace\<close> on ASCII text.
\<close>

definition is_space :: "char \<Rightarrow> bool" where
  "is_space c = (c \<in> {CHR '' '', CHR 0x09, CHR 0x0A, CHR 0x0B, CHR 0x0C, CHR 0x0D})"

definition TrimSpace_ascii :: "string \<Rightarrow> string" where
  "TrimSpace_ascii s = rev (dropWhile is_space (rev (dropWhile is_space s)))"

definition example_lib :: lib where
  "example_lib = \<lparr>TrimSpace = TrimSpace_ascii, Float64ToTime = At,
     SafeFileName = map (\<lambda>c. if c \<in> {CHR ''/'', CHR '':''} then CHR ''-'' else c),
     LeftTrucate = (\<lambda>s n. take n s), Join = (\<lambda>dir name. dir @ ''/'' @ name),
     EncodeToString = (\<lambda>img. img)\<rparr>"

text \<open>
  A probe whose listener has seen two requests: the navigation to the target, request
  \<open>1\<close>, and an image of the page, request \<open>2\<close>.
\<close>

definition request_1 :: EventRequestWillBeSent where
  "request_1 = \<lparr>rq_RequestID = ''1'', rq_WallTime = At 10, rq_URL = ''http://a/''\<rparr>"

definition request_2 :: EventRequestWillBeSent where
  "request_2 = \<lparr>rq_RequestID = ''2'', rq_WallTime = At 11, rq_URL = ''http://a/i.png''\<rparr>"

definition two_requests :: probe where
  "two_requests = on_RequestWillBeSent request_2
     (on_RequestWillBeSent request_1 (new_probe ''http://a/'' ZeroTime))"



text \<open>
  The response of cdproto to request \<open>1\<close>, and that of go-rod to request \<open>2\<close>.
\<close>

definition cdp_response_1 :: cdp_EventResponseReceived where
  "cdp_response_1 = \<lparr>crs_RequestID = ''1'', crs_Response = \<lparr>cr_URL = ''http://a/'',
     cr_Status = 200, cr_StatusText = ''OK'', cr_Protocol = ''http/1.1'',
     cr_EncodedDataLength = 120, cr_Headers = [(''Server'', JString ''nginx'')],
     cr_SecurityDetails = None, cr_RemoteIPAddress = ''10.0.0.1'', cr_MimeType = ''text/html'',
     cr_ResponseTime = Some (At 12)\<rparr>\<rparr>"

definition rod_response_2 :: rod_EventResponseReceived where
  "rod_response_2 = \<lparr>rrs_RequestID = ''2'', rrs_Response = \<lparr>rr_URL = ''http://a/i.png'',
     rr_Status = 404, rr_StatusText = ''Not Found'', rr_Protocol = ''http/1.1'',
     rr_EncodedDataLength = 0, rr_Headers = [],
     rr_SecurityDetails = None, rr_RemoteIPAddress = ''10.0.0.1'', rr_MIMEType = ''text/html'',
     rr_ResponseTime = 13\<rparr>\<rparr>"

text \<open>What is seen of the state a listener ends in: the Result, if it did not panic.\<close>

definition result_of :: "panic + probe \<Rightarrow> Result option" where
  "result_of x = (case x of Inl _ \<Rightarrow> None | Inr p \<Rightarrow> Some (p_result p))"

definition cdp_response_2 :: cdp_EventResponseReceived where
  "cdp_response_2 = \<lparr>crs_RequestID = ''2'', crs_Response = \<lparr>cr_URL = ''http://a/i.png'',
     cr_Status = 200, cr_StatusText = ''OK'', cr_Protocol = ''http/1.1'',
     cr_EncodedDataLength = 4096, cr_Headers = [],
     cr_SecurityDetails = None, cr_RemoteIPAddress = ''10.0.0.1'', cr_MimeType = ''image/png'',
     cr_ResponseTime = None\<rparr>\<rparr>"

definition failure_2 :: EventLoadingFailed where
  "failure_2 = \<lparr>lf_RequestID = ''2'', lf_ErrorText = ''net::ERR_ABORTED''\<rparr>"

definition entry_2 :: NetworkLog where
  "entry_2 = \<lparr>nl_Time = At 11, nl_RequestType = HTTP, nl_URL = ''http://a/i.png'',
     nl_StatusCode = 0, nl_RemoteIP = [], nl_MIMEType = [], nl_Error = [], nl_Content = []\<rparr>"

text \<open>
  A browser in which every call succeeds, for each driver. While \<open>Witness\<close>
  navigates, the listener gets the first request and its response.
\<close>

definition rod_response_ok :: rod_EventResponseReceived where
  "rod_response_ok = \<lparr>rrs_RequestID = ''1'', rrs_Response = \<lparr>rr_URL = ''http://a/'',
     rr_Status = 200, rr_StatusText = ''OK'', rr_Protocol = ''http/1.1'',
     rr_EncodedDataLength = 120, rr_Headers = [(''Server'', JString ''nginx'')],
     rr_SecurityDetails = None, rr_RemoteIPAddress = ''10.0.0.1'', rr_MIMEType = ''text/html'',
     rr_ResponseTime = 12\<rparr>\<rparr>"

definition cdp_browser :: cdp_env where
  "cdp_browser = \<lparr>b_now = At 9,
     b_events = (\<lambda>stage. if stage = Navigating
                           then [RequestWillBeSent request_1, ResponseReceived cdp_response_1]
                           else []),
     b_navigate = None, b_evaluate = (\<lambda>js. None), b_get_cookies = Inr [],
     b_get_title = Inr ''Hi'', b_get_html = Inr ''<body>x</body>'',
     b_fingerprint = (\<lambda>r. [''Nginx'']),
     b_WriteFile = (\<lambda>path img. None), b_Decode = (\<lambda>img. None),
     b_PerceptionHash = (\<lambda>img. Inr ''p:e0e0e0e0e0e0e0e0''),
     c_MkdirTemp = None, c_network_Enable = None, c_SetExtraHTTPHeaders = (\<lambda>headers. None),
     c_WaitVisible = (\<lambda>sel. None), c_scrollHeight = (\<lambda>sel. Inr 600),
     c_SetDeviceMetricsOverride = (\<lambda>w h. None), c_ScrollIntoView = (\<lambda>sel. None),
     c_Screenshot = (\<lambda>sel. Inr ''PNG''), c_CaptureScreenshot = (\<lambda>format beyond. Inr ''JPEG'')\<rparr>"

definition rod_browser :: rod_env where
  "rod_browser = \<lparr>b_now = At 9,
     b_events = (\<lambda>stage. if stage = Navigating
                           then [RequestWillBeSent request_1, ResponseReceived rod_response_ok]
                           else []),
     b_navigate = None, b_evaluate = (\<lambda>js. None), b_get_cookies = Inr [],
     b_get_title = Inr ''Hi'', b_get_html = Inr ''<body>x</body>'',
     b_fingerprint = (\<lambda>r. [''Nginx'']),
     b_WriteFile = (\<lambda>path img. None), b_Decode = (\<lambda>img. None),
     b_PerceptionHash = (\<lambda>img. Inr ''p:e0e0e0e0e0e0e0e0''),
     g_Page = None, g_SetViewport = (\<lambda>w h. None), g_SetUserAgent = (\<lambda>ua. None),
     g_SetExtraHeaders = (\<lambda>headers. None), g_Screenshot = (\<lambda>full options. Inr ''JPEG'')\<rparr>"

text \<open>The same browsers with one call that fails.\<close>

definition cdp_capture_fails :: cdp_env where
  "cdp_capture_fails = cdp_browser\<lparr>c_CaptureScreenshot := (\<lambda>format beyond. Inl ''timeout'')\<rparr>"

definition cdp_write_fails :: cdp_env where
  "cdp_write_fails = cdp_browser\<lparr>b_WriteFile := (\<lambda>path img. Some ''disk full'')\<rparr>"

definition cdp_decode_fails :: cdp_env where
  "cdp_decode_fails = cdp_browser\<lparr>b_Decode := (\<lambda>img. Some ''unknown format'')\<rparr>"

definition rod_capture_fails :: rod_env where
  "rod_capture_fails = rod_browser\<lparr>g_Screenshot := (\<lambda>full options. Inl ''timeout'')\<rparr>"

definition rod_write_fails :: rod_env where
  "rod_write_fails = rod_browser\<lparr>b_WriteFile := (\<lambda>path img. Some ''disk full'')\<rparr>"

definition rod_decode_fails :: rod_env where
  "rod_decode_fails = rod_browser\<lparr>b_Decode := (\<lambda>img. Some ''unknown format'')\<rparr>"

text \<open>
  Options with JavaScript to run on every page, browsers in which its evaluation
  fails, and browsers in which the navigation ends with the expiry of the deadline.
\<close>

definition javascript_options :: Options where
  "javascript_options = NewDefaultOptions\<lparr>Scan := (Scan NewDefaultOptions)
     \<lparr>JavaScript := ''document.title = x.y''\<rparr>\<rparr>"

definition cdp_javascript_fails :: cdp_env where
  "cdp_javascript_fails = cdp_browser\<lparr>b_evaluate := (\<lambda>js. Some ''x is not defined'')\<rparr>"

definition rod_javascript_fails :: rod_env where
  "rod_javascript_fails = rod_browser\<lparr>b_evaluate := (\<lambda>js. Some ''x is not defined'')\<rparr>"

definition cdp_deadline :: cdp_env where
  "cdp_deadline = cdp_browser\<lparr>b_navigate := Some DeadlineExceeded\<rparr>"

definition rod_deadline :: rod_env where
  "rod_deadline = rod_browser\<lparr>b_navigate := Some DeadlineExceeded\<rparr>"


section \<open>The writer fan-out\<close>

lemma runWriters_from_frame:
  "logs (snd (runWriters_from i ws result st)) = logs st \<and>
   cancelled (snd (runWriters_from i ws result st)) = cancelled st"
  by (induction ws arbitrary: i st) (auto split: prod.splits option.splits)


text \<open>
  When every writer of a first part of the slice succeeds, the loop goes on with the
  rest, and each writer of that part has been called once, in order.
\<close>

lemma runWriters_from_append:
  "runWriters_from i pre result st = (None, st1) \<Longrightarrow>
   runWriters_from i (pre @ rest) result st = runWriters_from (i + length pre) rest result st1
   \<and> written st1 = written st @ map (\<lambda>j. (j, result)) [i ..< i + length pre]"
proof (induction pre arbitrary: i st)
  case Nil
  then show ?case by simp
next
  case (Cons writer pre)
  obtain e w' where wr: "writer result (world st) = (e, w')"
    by (cases "writer result (world st)")
  let ?st' = "st\<lparr>world := w', written := written st @ [(i, result)]\<rparr>"
  from Cons.prems wr have e: "e = None" and rest: "runWriters_from (Suc i) pre result ?st' = (None, st1)"
    by (auto split: option.splits)
  from Cons.IH[OF rest] wr e show ?case
    by (simp add: upt_conv_Cons del: upt_Suc)
qed



text \<open>
  C3, as the code has it. \<open>runWriters\<close> returns at the first writer whose \<open>Write\<close>
  fails: when the writers before it succeed and it returns an error, it is the last
  writer called for this Result and the writers after it in the slice are not called.
  The error is logged by \<open>Run\<close>, the run is not cancelled, and the worker goes on with
  the next target.
\<close>

theorem write_error_stops_fan_out_not_run:
  assumes "checkUrl opts ParseRequestURI target = None"
    and "witness target (world st) = (Inr result, w0)"
    and "ResponseCode result \<noteq> 0"
    and "runWriters pre result (st\<lparr>world := w0\<rparr>) = (None, st1)"
    and "writer result (world st1) = (Some err, w')"
    and "\<not> cancelled st"
  shows "process_target opts ParseRequestURI witness (pre @ writer # rest) target st
           = (Continue, st1\<lparr>world := w',
                written := written st @ map (\<lambda>j. (j, result)) [0 ..< Suc (length pre)],
                logs := logs st @ [(LError, ''failed to write result for target'', err),
                                   (LInfo, ''result'', target)]\<rparr>)
       \<and> \<not> cancelled st1
       \<and> worker opts ParseRequestURI witness (pre @ writer # rest) (target # targets) st
           = worker opts ParseRequestURI witness (pre @ writer # rest) targets
               (st1\<lparr>world := w',
                 written := written st @ map (\<lambda>j. (j, result)) [0 ..< Suc (length pre)],
                 logs := logs st @ [(LError, ''failed to write result for target'', err),
                                    (LInfo, ''result'', target)]\<rparr>)"
proof -
  let ?st0 = "st\<lparr>world := w0\<rparr>"
  from assms(4) have pre: "runWriters_from 0 pre result ?st0 = (None, st1)"
    by (simp add: runWriters_def)
  from runWriters_from_append[OF pre, of "writer # rest"]
  have run: "runWriters_from 0 (pre @ writer # rest) result ?st0
               = runWriters_from (length pre) (writer # rest) result st1"
    and wr: "written st1 = written st @ map (\<lambda>j. (j, result)) [0 ..< length pre]"
    by simp_all
  from runWriters_from_frame[of 0 pre result ?st0] pre
  have fr: "logs st1 = logs st" "cancelled st1 = cancelled st"
    by simp_all
  have pt: "process_target opts ParseRequestURI witness (pre @ writer # rest) target st
           = (Continue, st1\<lparr>world := w',
                written := written st @ map (\<lambda>j. (j, result)) [0 ..< Suc (length pre)],
                logs := logs st @ [(LError, ''failed to write result for target'', err),
                                   (LInfo, ''result'', target)]\<rparr>)"
    using assms(1,2,3,5) run wr fr
    by (simp add: process_target_def runWriters_def)
  from pt assms(6) fr show ?thesis by simp
qed

theorem write_error_stops_fan_out_not_run_witness:
  "checkUrl NewDefaultOptions parse_example ''http://a'' = None
   \<and> witness_200 ''http://a'' (world run_state0)
       = (Inr ((new_Result ''http://a'' ZeroTime)\<lparr>ResponseCode := 200\<rparr>), 0)
   \<and> ResponseCode ((new_Result ''http://a'' ZeroTime)\<lparr>ResponseCode := 200\<rparr>) \<noteq> 0
   \<and> runWriters [writer_ok] ((new_Result ''http://a'' ZeroTime)\<lparr>ResponseCode := 200\<rparr>)
         (run_state0\<lparr>world := 0\<rparr>)
       = (None, \<lparr>world = 1, logs = [],
                 written = [(0, (new_Result ''http://a'' ZeroTime)\<lparr>ResponseCode := 200\<rparr>)],
                 cancelled = False\<rparr>)
   \<and> writer_failing ((new_Result ''http://a'' ZeroTime)\<lparr>ResponseCode := 200\<rparr>) 1
       = (Some ''database is locked'', 1)
   \<and> \<not> cancelled run_state0
   \<and> process_target NewDefaultOptions parse_example witness_200
         [writer_ok, writer_failing, writer_ok] ''http://a'' run_state0
       = (Continue, \<lparr>world = 1,
            logs = [(LError, ''failed to write result for target'', ''database is locked''),
                    (LInfo, ''result'', ''http://a'')],
            written = [(0, (new_Result ''http://a'' ZeroTime)\<lparr>ResponseCode := 200\<rparr>),
                       (1, (new_Result ''http://a'' ZeroTime)\<lparr>ResponseCode := 200\<rparr>)],
            cancelled = False\<rparr>)"
proof -
  let ?r = "(new_Result ''http://a'' ZeroTime)\<lparr>ResponseCode := 200\<rparr>"
  let ?st1 = "\<lparr>world = 1::nat, logs = [], written = [(0, ?r)], cancelled = False\<rparr>"
  have c: "checkUrl NewDefaultOptions parse_example ''http://a'' = None"
    by (simp add: checkUrl_def parse_example_def NewDefaultOptions_def SliceHasStr_def)
  have w: "witness_200 ''http://a'' (world run_state0) = (Inr ?r, 0)"
    by (simp add: witness_200_def run_state0_def)
  have n: "ResponseCode ?r \<noteq> 0"
    by simp
  have p: "runWriters [writer_ok] ?r (run_state0\<lparr>world := 0\<rparr>) = (None, ?st1)"
    by (simp add: runWriters_def writer_ok_def run_state0_def)
  have f: "writer_failing ?r (world ?st1) = (Some ''database is locked'', 1)"
    by (simp add: writer_failing_def)
  have nc: "\<not> cancelled run_state0"
    by (simp add: run_state0_def)
  from write_error_stops_fan_out_not_run
         [where witness = witness_200 and st = run_state0 and target = "''http://a''"
            and pre = "[writer_ok]" and writer = writer_failing and rest = "[writer_ok]"
            and targets = "[]", OF c w n p f nc]
  have "process_target NewDefaultOptions parse_example witness_200
          ([writer_ok] @ writer_failing # [writer_ok]) ''http://a'' run_state0
        = (Continue, ?st1\<lparr>world := 1,
             written := written run_state0 @ map (\<lambda>j. (j, ?r)) [0 ..< Suc (length [writer_ok])],
             logs := logs run_state0
               @ [(LError, ''failed to write result for target'', ''database is locked''),
                  (LInfo, ''result'', ''http://a'')]\<rparr>)"
    by blast
  then have "process_target NewDefaultOptions parse_example witness_200
          [writer_ok, writer_failing, writer_ok] ''http://a'' run_state0
        = (Continue, \<lparr>world = 1,
            logs = [(LError, ''failed to write result for target'', ''database is locked''),
                    (LInfo, ''result'', ''http://a'')],
            written = [(0, ?r), (1, ?r)], cancelled = False\<rparr>)"
    by (simp add: run_state0_def upt_conv_Cons del: upt_Suc)
  with c w n p f nc show ?thesis by simp
qed

text \<open>
  C3 as the spec states it fails: with a failing writer followed by a working one, only
  the failing writer is called; the working one never receives the Result.
\<close>

theorem later_writers_still_called_counterexample:
  "fst (writer_failing ((new_Result ''http://a'' ZeroTime)\<lparr>ResponseCode := 200\<rparr>) 0)
     = Some ''database is locked''
   \<and> written (snd (process_target NewDefaultOptions parse_example witness_200
                     [writer_failing, writer_ok] ''http://a'' run_state0))
     = [(0, (new_Result ''http://a'' ZeroTime)\<lparr>ResponseCode := 200\<rparr>)]"
  by (simp add: process_target_def checkUrl_def parse_example_def NewDefaultOptions_def
      SliceHasStr_def witness_200_def run_state0_def runWriters_def writer_failing_def)

section \<open>Extra headers\<close>








section \<open>The listeners\<close>

subsection \<open>Loading failed\<close>

text \<open>
  C6. On a \<open>loadingFailed\<close> event, in both drivers: when the request id has no entry
  in \<open>netlog\<close>, nothing changes; when it is the id of the first request, the Result is
  marked failed with the event's error text, and nothing else changes, so that no
  entry is appended to \<open>Network\<close>; for any other id the entry of \<open>netlog\<close>, with the error
  text as its \<open>Error\<close>, is appended to \<open>Network\<close>, and nothing else changes.
\<close>

theorem loading_failed_first_or_sub_request:
  "(netlog p (lf_RequestID e) = None \<longrightarrow>
      chromedp_handle l opts (LoadingFailed e) p = Inr p
      \<and> gorod_handle l opts (LoadingFailed e) p = Inr p)
   \<and> (netlog p (lf_RequestID e) = Some entry
        \<and> first p = Some f \<and> rq_RequestID f = lf_RequestID e \<longrightarrow>
      chromedp_handle l opts (LoadingFailed e) p
        = Inr (p\<lparr>p_result := (p_result p)\<lparr>Failed := True, FailedReason := lf_ErrorText e\<rparr>\<rparr>)
      \<and> gorod_handle l opts (LoadingFailed e) p
        = Inr (p\<lparr>p_result := (p_result p)\<lparr>Failed := True, FailedReason := lf_ErrorText e\<rparr>\<rparr>))
   \<and> (netlog p (lf_RequestID e) = Some entry
        \<and> (first p = None \<or> (\<exists>g. first p = Some g \<and> rq_RequestID g \<noteq> lf_RequestID e)) \<longrightarrow>
      chromedp_handle l opts (LoadingFailed e) p
        = Inr (p\<lparr>p_result := (p_result p)\<lparr>Network := Network (p_result p)
                 @ [entry\<lparr>nl_Error := lf_ErrorText e\<rparr>]\<rparr>\<rparr>)
      \<and> gorod_handle l opts (LoadingFailed e) p
        = Inr (p\<lparr>p_result := (p_result p)\<lparr>Network := Network (p_result p)
                 @ [entry\<lparr>nl_Error := lf_ErrorText e\<rparr>]\<rparr>\<rparr>))"
  by (auto simp: chromedp_handle_def gorod_handle_def on_LoadingFailed_def is_first_def)

theorem loading_failed_first_or_sub_request_witness:
  "netlog two_requests ''3'' = None
   \<and> chromedp_handle example_lib NewDefaultOptions
        (LoadingFailed \<lparr>lf_RequestID = ''3'', lf_ErrorText = ''net::ERR_FAILED''\<rparr>) two_requests
      = Inr two_requests
   \<and> netlog two_requests ''1'' = Some \<lparr>nl_Time = At 10, nl_RequestType = HTTP,
        nl_URL = ''http://a/'', nl_StatusCode = 0, nl_RemoteIP = [], nl_MIMEType = [],
        nl_Error = [], nl_Content = []\<rparr>
   \<and> first two_requests = Some request_1
   \<and> chromedp_handle example_lib NewDefaultOptions
        (LoadingFailed \<lparr>lf_RequestID = ''1'', lf_ErrorText = ''net::ERR_FAILED''\<rparr>) two_requests
      = Inr (two_requests\<lparr>p_result := (p_result two_requests)
               \<lparr>Failed := True, FailedReason := ''net::ERR_FAILED''\<rparr>\<rparr>)
   \<and> netlog two_requests ''2'' = Some \<lparr>nl_Time = At 11, nl_RequestType = HTTP,
        nl_URL = ''http://a/i.png'', nl_StatusCode = 0, nl_RemoteIP = [], nl_MIMEType = [],
        nl_Error = [], nl_Content = []\<rparr>
   \<and> gorod_handle example_lib NewDefaultOptions
        (LoadingFailed \<lparr>lf_RequestID = ''2'', lf_ErrorText = ''net::ERR_FAILED''\<rparr>) two_requests
      = Inr (two_requests\<lparr>p_result := (p_result two_requests)\<lparr>Network :=
               Network (p_result two_requests)
               @ [\<lparr>nl_Time = At 11, nl_RequestType = HTTP, nl_URL = ''http://a/i.png'',
                   nl_StatusCode = 0, nl_RemoteIP = [], nl_MIMEType = [],
                   nl_Error = ''net::ERR_FAILED'', nl_Content = []\<rparr>]\<rparr>\<rparr>)"
proof -
  let ?e1 = "\<lparr>nl_Time = At 10, nl_RequestType = HTTP, nl_URL = ''http://a/'',
     nl_StatusCode = 0, nl_RemoteIP = [], nl_MIMEType = [], nl_Error = [], nl_Content = []\<rparr>"
  let ?e2 = "\<lparr>nl_Time = At 11, nl_RequestType = HTTP, nl_URL = ''http://a/i.png'',
     nl_StatusCode = 0, nl_RemoteIP = [], nl_MIMEType = [], nl_Error = [], nl_Content = []\<rparr>"
  have n3: "netlog two_requests ''3'' = None"
    and n1: "netlog two_requests ''1'' = Some ?e1"
    and n2: "netlog two_requests ''2'' = Some ?e2"
    and f: "first two_requests = Some request_1"
    and r: "rq_RequestID request_1 = ''1''"
    by (simp_all add: two_requests_def on_RequestWillBeSent_def new_probe_def request_1_def
        request_2_def)
  note lfr = loading_failed_first_or_sub_request
  have a: "chromedp_handle example_lib NewDefaultOptions
        (LoadingFailed \<lparr>lf_RequestID = ''3'', lf_ErrorText = ''net::ERR_FAILED''\<rparr>) two_requests
      = Inr two_requests"
    using lfr[where p = two_requests and l = example_lib and opts = NewDefaultOptions
                and e = "\<lparr>lf_RequestID = ''3'', lf_ErrorText = ''net::ERR_FAILED''\<rparr>"] n3
    by simp
  have b: "chromedp_handle example_lib NewDefaultOptions
        (LoadingFailed \<lparr>lf_RequestID = ''1'', lf_ErrorText = ''net::ERR_FAILED''\<rparr>) two_requests
      = Inr (two_requests\<lparr>p_result := (p_result two_requests)
               \<lparr>Failed := True, FailedReason := ''net::ERR_FAILED''\<rparr>\<rparr>)"
    using lfr[where p = two_requests and l = example_lib and opts = NewDefaultOptions
                and e = "\<lparr>lf_RequestID = ''1'', lf_ErrorText = ''net::ERR_FAILED''\<rparr>"
                and entry = ?e1 and f = request_1] n1 f r
    by simp
  have c: "gorod_handle example_lib NewDefaultOptions
        (LoadingFailed \<lparr>lf_RequestID = ''2'', lf_ErrorText = ''net::ERR_FAILED''\<rparr>) two_requests
      = Inr (two_requests\<lparr>p_result := (p_result two_requests)\<lparr>Network :=
               Network (p_result two_requests) @ [?e2\<lparr>nl_Error := ''net::ERR_FAILED''\<rparr>]\<rparr>\<rparr>)"
    using lfr[where p = two_requests and l = example_lib and opts = NewDefaultOptions
                and e = "\<lparr>lf_RequestID = ''2'', lf_ErrorText = ''net::ERR_FAILED''\<rparr>"
                and entry = ?e2] n2 f r
    by simp
  from n3 n1 n2 f a b c show ?thesis by simp
qed


subsection \<open>Panics of the response handlers\<close>





subsection \<open>What the listeners keep\<close>

lemma extends_refl: "extends p p"
  by (simp add: extends_def)

lemma extends_trans:
  assumes pq: "extends p q" and qr: "extends q r"
  shows "extends p r"
proof -
  from pq obtain ns where 1: "Network (p_result q) = Network (p_result p) @ ns"
    by (auto simp: extends_def)
  from qr obtain ms where 2: "Network (p_result r) = Network (p_result q) @ ms"
    by (auto simp: extends_def)
  from 1 2 have n: "\<exists>ks. Network (p_result r) = Network (p_result p) @ ks"
    by simp
  have f: "first p \<noteq> None \<longrightarrow> first r = first p"
    using pq qr by (auto simp: extends_def)
  have d: "\<forall>rid. netlog p rid \<noteq> None \<longrightarrow> netlog r rid \<noteq> None"
    using pq qr by (simp add: extends_def)
  have w: "wf_probe p \<longrightarrow> wf_probe r"
    using pq qr by (simp add: extends_def)
  have k: "files r = files p" "PerceptionHash (p_result r) = PerceptionHash (p_result p)"
    "Screenshot (p_result r) = Screenshot (p_result p)"
    "Filename (p_result r) = Filename (p_result p)"
    using pq qr by (simp_all add: extends_def)
  from n f d w k show ?thesis
    unfolding extends_def by blast
qed

lemma run_handler_extends:
  assumes h: "\<And>ev p q. h ev p = Inr q \<Longrightarrow> extends p q"
  shows "run_handler h evs p = Inr q \<Longrightarrow> extends p q"
proof (induction evs arbitrary: p)
  case Nil
  then show ?case by (simp add: extends_refl)
next
  case (Cons ev evs)
  then obtain p' where 1: "h ev p = Inr p'" and 2: "run_handler h evs p' = Inr q"
    by (auto split: sum.splits)
  from h[OF 1] Cons.IH[OF 2] show ?case by (rule extends_trans)
qed

lemma run_handler_append:
  "run_handler h (evs @ evs') p =
     (case run_handler h evs p of Inl x \<Rightarrow> Inl x | Inr p' \<Rightarrow> run_handler h evs' p')"
  by (induction evs arbitrary: p) (auto split: sum.splits)

lemma chromedp_listen_run: "chromedp_listen l opts evs p = run_handler (chromedp_handle l opts) evs p"
  by (induction evs arbitrary: p) (auto split: sum.splits)

lemma gorod_handle_OtherEvent: "gorod_handle l opts OtherEvent p = Inr p"
  by (simp add: gorod_handle_def)

lemma gorod_listen_run:
  "gorod_listen l opts False evs p = run_handler (gorod_handle l opts) evs p"
proof (induction evs arbitrary: p)
  case Nil
  then show ?case by simp
next
  case (Cons ev evs)
  then show ?case
    by (cases ev) (auto simp: gorod_handle_OtherEvent split: sum.splits)
qed

text \<open>The handlers both listeners have.\<close>

lemma wf_probe_cong:
  "first q = first p \<Longrightarrow> netlog q = netlog p \<Longrightarrow> wf_probe q = wf_probe p"
  by (simp add: wf_probe_def)

lemma extends_same_requests:
  assumes "first q = first p" "netlog q = netlog p" "files q = files p"
    "\<exists>ns. Network (p_result q) = Network (p_result p) @ ns"
    "PerceptionHash (p_result q) = PerceptionHash (p_result p)"
    "Screenshot (p_result q) = Screenshot (p_result p)"
    "Filename (p_result q) = Filename (p_result p)"
  shows "extends p q"
  using assms wf_probe_cong[OF assms(1,2)] by (simp add: extends_def)

lemma append_entry_frame:
  "first (append_entry opts rid entry p) = first p"
  "netlog (append_entry opts rid entry p) = netlog p"
  "files (append_entry opts rid entry p) = files p"
  "plogs (append_entry opts rid entry p) = plogs p"
  "p_result (append_entry opts rid entry p)
     = (p_result p)\<lparr>Network := Network (p_result p) @ [entry]\<rparr>"
  by (simp_all add: append_entry_def Let_def)

lemma on_ConsoleAPICalled_extends: "extends p (on_ConsoleAPICalled l e p)"
  by (rule extends_same_requests) (simp_all add: on_ConsoleAPICalled_def Let_def)

lemma on_LoadingFailed_extends: "extends p (on_LoadingFailed e p)"
  by (rule extends_same_requests) (simp_all add: on_LoadingFailed_def split: option.splits)

lemma on_RequestWillBeSent_extends: "extends p (on_RequestWillBeSent e p)"
  by (auto simp: extends_def on_RequestWillBeSent_def wf_probe_def Let_def)

lemma chromedp_first_response_frame:
  "chromedp_first_response resp r = Inr r' \<Longrightarrow>
     Network r' = Network r \<and> PerceptionHash r' = PerceptionHash r
     \<and> Screenshot r' = Screenshot r \<and> Filename r' = Filename r
     \<and> Failed r' = Failed r \<and> FailedReason r' = FailedReason r"
  by (auto simp: chromedp_first_response_def Let_def split: sum.splits option.splits)

lemma gorod_first_response_frame:
  "gorod_first_response l resp r = Inr r' \<Longrightarrow>
     Network r' = Network r \<and> PerceptionHash r' = PerceptionHash r
     \<and> Screenshot r' = Screenshot r \<and> Filename r' = Filename r
     \<and> Failed r' = Failed r \<and> FailedReason r' = FailedReason r"
  by (auto simp: gorod_first_response_def Let_def split: sum.splits option.splits)

lemma chromedp_ResponseReceived_extends:
  "chromedp_ResponseReceived opts e p = Inr q \<Longrightarrow> extends p q"
  by (rule extends_same_requests)
     (auto simp: chromedp_ResponseReceived_def append_entry_frame
        dest!: chromedp_first_response_frame split: option.splits sum.splits if_splits)

lemma gorod_ResponseReceived_extends:
  "gorod_ResponseReceived l opts e p = Inr q \<Longrightarrow> extends p q"
  by (rule extends_same_requests)
     (auto simp: gorod_ResponseReceived_def append_entry_frame
        dest!: gorod_first_response_frame split: option.splits sum.splits if_splits)

lemma chromedp_handle_extends: "chromedp_handle l opts ev p = Inr q \<Longrightarrow> extends p q"
  by (cases ev)
     (auto simp: chromedp_handle_def extends_refl on_ConsoleAPICalled_extends
        on_LoadingFailed_extends on_RequestWillBeSent_extends chromedp_ResponseReceived_extends
        intro: extends_same_requests split: option.splits)

lemma gorod_handle_extends: "gorod_handle l opts ev p = Inr q \<Longrightarrow> extends p q"
  by (cases ev)
     (auto simp: gorod_handle_def extends_refl on_ConsoleAPICalled_extends
        on_LoadingFailed_extends on_RequestWillBeSent_extends gorod_ResponseReceived_extends)

lemma chromedp_listen_extends: "chromedp_listen l opts evs p = Inr q \<Longrightarrow> extends p q"
  unfolding chromedp_listen_run by (rule run_handler_extends[OF chromedp_handle_extends])

lemma gorod_listen_extends: "gorod_listen l opts False evs p = Inr q \<Longrightarrow> extends p q"
  unfolding gorod_listen_run by (rule run_handler_extends[OF gorod_handle_extends])

lemma wf_new_probe: "wf_probe (new_probe target now)"
  by (simp add: wf_probe_def new_probe_def)

text \<open>\<open>first\<close> is the first \<open>requestWillBeSent\<close> event the listener has handled.\<close>

lemma chromedp_handle_first:
  "chromedp_handle l opts ev p = Inr q \<Longrightarrow>
     first q = (case first p of Some f \<Rightarrow> Some f | None \<Rightarrow> first_request [ev])"
  by (cases ev)
     (auto simp: chromedp_handle_def on_RequestWillBeSent_def on_ConsoleAPICalled_def
        on_LoadingFailed_def chromedp_ResponseReceived_def append_entry_frame Let_def
        split: option.splits sum.splits if_splits)

lemma gorod_handle_first:
  "gorod_handle l opts ev p = Inr q \<Longrightarrow>
     first q = (case first p of Some f \<Rightarrow> Some f | None \<Rightarrow> first_request [ev])"
  by (cases ev)
     (auto simp: gorod_handle_def on_RequestWillBeSent_def on_ConsoleAPICalled_def
        on_LoadingFailed_def gorod_ResponseReceived_def append_entry_frame Let_def
        split: option.splits sum.splits if_splits)

lemma first_request_Cons:
  "first_request (ev # evs) = (case first_request [ev] of Some f \<Rightarrow> Some f | None \<Rightarrow> first_request evs)"
  by (cases ev) simp_all

lemma run_handler_first:
  assumes h: "\<And>ev p q. h ev p = Inr q \<Longrightarrow>
     first q = (case first p of Some f \<Rightarrow> Some f | None \<Rightarrow> first_request [ev])"
  shows "run_handler h evs p = Inr q \<Longrightarrow>
     first q = (case first p of Some f \<Rightarrow> Some f | None \<Rightarrow> first_request evs)"
proof (induction evs arbitrary: p)
  case Nil
  then show ?case by (auto split: option.splits)
next
  case (Cons ev evs)
  then obtain p' where 1: "h ev p = Inr p'" and 2: "run_handler h evs p' = Inr q"
    by (auto split: sum.splits)
  from h[OF 1] Cons.IH[OF 2] show ?case
    by (subst first_request_Cons) (auto split: option.splits)
qed

lemma chromedp_listen_first:
  "chromedp_listen l opts evs (new_probe target now) = Inr p \<Longrightarrow> first p = first_request evs"
  using run_handler_first[of "chromedp_handle l opts" evs "new_probe target now" p,
          OF chromedp_handle_first]
  by (simp add: chromedp_listen_run new_probe_def)

lemma gorod_listen_first:
  "gorod_listen l opts False evs (new_probe target now) = Inr p \<Longrightarrow> first p = first_request evs"
  using run_handler_first[of "gorod_handle l opts" evs "new_probe target now" p,
          OF gorod_handle_first]
  by (simp add: gorod_listen_run new_probe_def)

lemma chromedp_listen_wf:
  "chromedp_listen l opts evs (new_probe target now) = Inr p \<Longrightarrow> wf_probe p"
  using chromedp_listen_extends[of l opts evs "new_probe target now" p] wf_new_probe
  by (simp add: extends_def)

lemma gorod_listen_wf:
  "gorod_listen l opts False evs (new_probe target now) = Inr p \<Longrightarrow> wf_probe p"
  using gorod_listen_extends[of l opts evs "new_probe target now" p] wf_new_probe
  by (simp add: extends_def)


subsection \<open>The top-level fields\<close>

lemma top_level_append_entry:
  "top_level (p_result (append_entry opts rid entry p)) = top_level (p_result p)"
  by (simp add: append_entry_frame top_level_def)

lemma chromedp_handle_top_level_kept:
  assumes "chromedp_handle l opts ev p = Inr q"
    and "\<not> (\<exists>e. ev = ResponseReceived e \<and> is_first p (crs_RequestID e))"
  shows "top_level (p_result q) = top_level (p_result p)"
proof (cases ev)
  case (ResponseReceived e)
  with assms show ?thesis
    by (auto simp: chromedp_handle_def chromedp_ResponseReceived_def top_level_append_entry
        split: option.splits)
qed (use assms in \<open>auto simp: chromedp_handle_def on_ConsoleAPICalled_def on_LoadingFailed_def
       on_RequestWillBeSent_def top_level_def Let_def split: option.splits\<close>)

lemma gorod_handle_top_level_kept:
  assumes "gorod_handle l opts ev p = Inr q"
    and "\<not> (\<exists>e. ev = ResponseReceived e \<and> is_first p (rrs_RequestID e))"
  shows "top_level (p_result q) = top_level (p_result p)"
proof (cases ev)
  case (ResponseReceived e)
  with assms show ?thesis
    by (auto simp: gorod_handle_def gorod_ResponseReceived_def top_level_append_entry
        split: option.splits)
qed (use assms in \<open>auto simp: gorod_handle_def on_ConsoleAPICalled_def on_LoadingFailed_def
       on_RequestWillBeSent_def top_level_def Let_def split: option.splits\<close>)

lemma chromedp_first_response_sets:
  assumes "chromedp_handle l opts (ResponseReceived e) p = Inr q"
    and "is_first p (crs_RequestID e)" and "netlog p (crs_RequestID e) \<noteq> None"
  shows "FinalURL (p_result q) = cr_URL (crs_Response e)
       \<and> ResponseCode (p_result q) = cr_Status (crs_Response e)
       \<and> ResponseReason (p_result q) = cr_StatusText (crs_Response e)
       \<and> Protocol (p_result q) = cr_Protocol (crs_Response e)
       \<and> chromedp_write_headers (cr_Headers (crs_Response e)) (Headers (p_result p))
           = Inr (Headers (p_result q))
       \<and> TLS (p_result q) = (case cr_SecurityDetails (crs_Response e) of
                                None \<Rightarrow> TLS (p_result p) | Some sd \<Rightarrow> chromedp_TLS sd)"
  using assms
  by (auto simp: chromedp_handle_def chromedp_ResponseReceived_def chromedp_first_response_def
      append_entry_frame Let_def split: option.splits sum.splits)

lemma gorod_first_response_sets:
  assumes "gorod_handle l opts (ResponseReceived e) p = Inr q"
    and "is_first p (rrs_RequestID e)" and "netlog p (rrs_RequestID e) \<noteq> None"
  shows "FinalURL (p_result q) = rr_URL (rrs_Response e)
       \<and> ResponseCode (p_result q) = rr_Status (rrs_Response e)
       \<and> ResponseReason (p_result q) = rr_StatusText (rrs_Response e)
       \<and> Protocol (p_result q) = rr_Protocol (rrs_Response e)
       \<and> Headers (p_result q)
           = gorod_write_headers (rr_Headers (rrs_Response e)) (Headers (p_result p))
       \<and> (case rr_SecurityDetails (rrs_Response e) of
             None \<Rightarrow> TLS (p_result q) = TLS (p_result p)
           | Some sd \<Rightarrow> gorod_TLS l sd = Inr (TLS (p_result q)))"
  using assms
  by (auto simp: gorod_handle_def gorod_ResponseReceived_def gorod_first_response_def
      append_entry_frame Let_def split: option.splits sum.splits)

lemma is_first_reached:
  assumes "first p = first_request evs" and "wf_probe p"
  shows "is_first p rid = (\<exists>f. first_request evs = Some f \<and> rq_RequestID f = rid)"
    and "is_first p rid \<Longrightarrow> netlog p rid \<noteq> None"
  using assms by (auto simp: is_first_def wf_probe_def split: option.splits)

text \<open>
  C1, as the code has it. In a state the listener has reached, \<open>first\<close> is the first
  \<open>requestWillBeSent\<close> event handled. An event that is handled next sets the top-level
  fields from its response when it is a \<open>responseReceived\<close> event whose request id is
  that of the first request: final URL, response code and reason, protocol and TLS
  details are overwritten, and the headers of the response are appended to those
  already there. Any other event leaves the top-level fields as they are. Nothing
  limits the number of events that set them.
\<close>

theorem top_level_fields_set_by_responses_to_first_request:
  assumes "chromedp_listen l opts evs (new_probe target now) = Inr p"
    and "chromedp_handle l opts ev p = Inr q"
    and "gorod_listen l opts False gevs (new_probe gtarget gnow) = Inr gp"
    and "gorod_handle l opts gev gp = Inr gq"
  shows "first p = first_request evs \<and> first gp = first_request gevs
    \<and> (\<forall>e f. ev = ResponseReceived e \<and> first_request evs = Some f
              \<and> rq_RequestID f = crs_RequestID e \<longrightarrow>
          FinalURL (p_result q) = cr_URL (crs_Response e)
          \<and> ResponseCode (p_result q) = cr_Status (crs_Response e)
          \<and> ResponseReason (p_result q) = cr_StatusText (crs_Response e)
          \<and> Protocol (p_result q) = cr_Protocol (crs_Response e)
          \<and> chromedp_write_headers (cr_Headers (crs_Response e)) (Headers (p_result p))
              = Inr (Headers (p_result q))
          \<and> TLS (p_result q) = (case cr_SecurityDetails (crs_Response e) of
                                   None \<Rightarrow> TLS (p_result p) | Some sd \<Rightarrow> chromedp_TLS sd))
    \<and> (\<not> (\<exists>e f. ev = ResponseReceived e \<and> first_request evs = Some f
                 \<and> rq_RequestID f = crs_RequestID e) \<longrightarrow>
          top_level (p_result q) = top_level (p_result p))
    \<and> (\<forall>e f. gev = ResponseReceived e \<and> first_request gevs = Some f
              \<and> rq_RequestID f = rrs_RequestID e \<longrightarrow>
          FinalURL (p_result gq) = rr_URL (rrs_Response e)
          \<and> ResponseCode (p_result gq) = rr_Status (rrs_Response e)
          \<and> ResponseReason (p_result gq) = rr_StatusText (rrs_Response e)
          \<and> Protocol (p_result gq) = rr_Protocol (rrs_Response e)
          \<and> Headers (p_result gq)
              = gorod_write_headers (rr_Headers (rrs_Response e)) (Headers (p_result gp))
          \<and> (case rr_SecurityDetails (rrs_Response e) of
                None \<Rightarrow> TLS (p_result gq) = TLS (p_result gp)
              | Some sd \<Rightarrow> gorod_TLS l sd = Inr (TLS (p_result gq))))
    \<and> (\<not> (\<exists>e f. gev = ResponseReceived e \<and> first_request gevs = Some f
                 \<and> rq_RequestID f = rrs_RequestID e) \<longrightarrow>
          top_level (p_result gq) = top_level (p_result gp))"
proof -
  note cf = chromedp_listen_first[OF assms(1)] and cw = chromedp_listen_wf[OF assms(1)]
  note gf = gorod_listen_first[OF assms(3)] and gw = gorod_listen_wf[OF assms(3)]
  note ci = is_first_reached[OF cf cw] and gi = is_first_reached[OF gf gw]
  have c1: "FinalURL (p_result q) = cr_URL (crs_Response e)
          \<and> ResponseCode (p_result q) = cr_Status (crs_Response e)
          \<and> ResponseReason (p_result q) = cr_StatusText (crs_Response e)
          \<and> Protocol (p_result q) = cr_Protocol (crs_Response e)
          \<and> chromedp_write_headers (cr_Headers (crs_Response e)) (Headers (p_result p))
              = Inr (Headers (p_result q))
          \<and> TLS (p_result q) = (case cr_SecurityDetails (crs_Response e) of
                                   None \<Rightarrow> TLS (p_result p) | Some sd \<Rightarrow> chromedp_TLS sd)"
    if "ev = ResponseReceived e" "first_request evs = Some f" "rq_RequestID f = crs_RequestID e"
    for e f
  proof -
    from that have i: "is_first p (crs_RequestID e)" by (auto simp: ci(1))
    from assms(2) that(1) i ci(2)[OF i] show ?thesis
      by (intro chromedp_first_response_sets) simp_all
  qed
  have c2: "top_level (p_result q) = top_level (p_result p)"
    if "\<not> (\<exists>e f. ev = ResponseReceived e \<and> first_request evs = Some f
                 \<and> rq_RequestID f = crs_RequestID e)"
    using assms(2) that by (intro chromedp_handle_top_level_kept[of l opts ev]) (auto simp: ci(1))
  have g1: "FinalURL (p_result gq) = rr_URL (rrs_Response e)
          \<and> ResponseCode (p_result gq) = rr_Status (rrs_Response e)
          \<and> ResponseReason (p_result gq) = rr_StatusText (rrs_Response e)
          \<and> Protocol (p_result gq) = rr_Protocol (rrs_Response e)
          \<and> Headers (p_result gq)
              = gorod_write_headers (rr_Headers (rrs_Response e)) (Headers (p_result gp))
          \<and> (case rr_SecurityDetails (rrs_Response e) of
                None \<Rightarrow> TLS (p_result gq) = TLS (p_result gp)
              | Some sd \<Rightarrow> gorod_TLS l sd = Inr (TLS (p_result gq)))"
    if "gev = ResponseReceived e" "first_request gevs = Some f" "rq_RequestID f = rrs_RequestID e"
    for e f
  proof -
    from that have i: "is_first gp (rrs_RequestID e)" by (auto simp: gi(1))
    from assms(4) that(1) i gi(2)[OF i] show ?thesis
      by (intro gorod_first_response_sets) simp_all
  qed
  have g2: "top_level (p_result gq) = top_level (p_result gp)"
    if "\<not> (\<exists>e f. gev = ResponseReceived e \<and> first_request gevs = Some f
                 \<and> rq_RequestID f = rrs_RequestID e)"
    using assms(4) that by (intro gorod_handle_top_level_kept[of l opts gev]) (auto simp: gi(1))
  from cf gf c1 c2 g1 g2 show ?thesis by blast
qed

theorem top_level_fields_set_by_responses_to_first_request_witness:
  "chromedp_listen example_lib NewDefaultOptions
       [RequestWillBeSent request_1, RequestWillBeSent request_2] (new_probe ''http://a/'' ZeroTime)
     = Inr two_requests
   \<and> gorod_listen example_lib NewDefaultOptions False
       [RequestWillBeSent request_1, RequestWillBeSent request_2] (new_probe ''http://a/'' ZeroTime)
     = Inr two_requests
   \<and> (\<exists>q. chromedp_handle example_lib NewDefaultOptions (ResponseReceived cdp_response_1)
             two_requests = Inr q
          \<and> FinalURL (p_result q) = ''http://a/'' \<and> ResponseCode (p_result q) = 200
          \<and> ResponseReason (p_result q) = ''OK'' \<and> Protocol (p_result q) = ''http/1.1''
          \<and> Headers (p_result q) = [\<lparr>hdr_Key = ''Server'', hdr_Value = ''nginx''\<rparr>]
          \<and> TLS (p_result q) = zero_TLS)
   \<and> (\<exists>gq. gorod_handle example_lib NewDefaultOptions (ResponseReceived rod_response_2)
              two_requests = Inr gq
          \<and> top_level (p_result gq) = top_level (p_result two_requests))"
proof -
  let ?evs = "[RequestWillBeSent request_1, RequestWillBeSent request_2]"
  have c: "chromedp_listen example_lib NewDefaultOptions ?evs (new_probe ''http://a/'' ZeroTime)
             = Inr two_requests"
    by (simp add: chromedp_handle_def two_requests_def)
  have g: "gorod_listen example_lib NewDefaultOptions False ?evs (new_probe ''http://a/'' ZeroTime)
             = Inr two_requests"
    by (simp add: gorod_handle_def two_requests_def)
  have n: "netlog two_requests ''1'' \<noteq> None" "netlog two_requests ''2'' \<noteq> None"
    and f: "is_first two_requests ''1''" "\<not> is_first two_requests ''2''"
    and r: "p_result two_requests = new_Result ''http://a/'' ZeroTime"
    by (simp_all add: two_requests_def on_RequestWillBeSent_def new_probe_def request_1_def
        request_2_def is_first_def)
  obtain q where q: "chromedp_handle example_lib NewDefaultOptions
      (ResponseReceived cdp_response_1) two_requests = Inr q"
    using n f
    by (auto simp: chromedp_handle_def chromedp_ResponseReceived_def chromedp_first_response_def
        cdp_response_1_def split: option.splits)
  obtain gq where gq: "gorod_handle example_lib NewDefaultOptions
      (ResponseReceived rod_response_2) two_requests = Inr gq"
    using n f
    by (auto simp: gorod_handle_def gorod_ResponseReceived_def rod_response_2_def
        split: option.splits)
  note t = top_level_fields_set_by_responses_to_first_request[OF c q g gq]
  have fr: "first_request ?evs = Some request_1"
    by simp
  have c1: "rq_RequestID request_1 = crs_RequestID cdp_response_1"
    and g1: "rq_RequestID request_1 \<noteq> rrs_RequestID rod_response_2"
    by (simp_all add: request_1_def cdp_response_1_def rod_response_2_def)
  from t fr c1 have
    "FinalURL (p_result q) = cr_URL (crs_Response cdp_response_1)
     \<and> ResponseCode (p_result q) = cr_Status (crs_Response cdp_response_1)
     \<and> ResponseReason (p_result q) = cr_StatusText (crs_Response cdp_response_1)
     \<and> Protocol (p_result q) = cr_Protocol (crs_Response cdp_response_1)
     \<and> chromedp_write_headers (cr_Headers (crs_Response cdp_response_1))
          (Headers (p_result two_requests)) = Inr (Headers (p_result q))
     \<and> TLS (p_result q) = (case cr_SecurityDetails (crs_Response cdp_response_1) of
                              None \<Rightarrow> TLS (p_result two_requests) | Some sd \<Rightarrow> chromedp_TLS sd)"
    by blast
  then have cq: "FinalURL (p_result q) = ''http://a/'' \<and> ResponseCode (p_result q) = 200
          \<and> ResponseReason (p_result q) = ''OK'' \<and> Protocol (p_result q) = ''http/1.1''
          \<and> Headers (p_result q) = [\<lparr>hdr_Key = ''Server'', hdr_Value = ''nginx''\<rparr>]
          \<and> TLS (p_result q) = zero_TLS"
    by (simp add: cdp_response_1_def r new_Result_def)
  from t fr g1 have gg: "top_level (p_result gq) = top_level (p_result two_requests)"
    by auto
  from c g q gq cq gg show ?thesis by blast
qed

text \<open>
  C1 as the spec states it fails: two responses with the id of the first request both
  set the top-level fields, the second appending its headers to those of the first;
  and when the first request fails without a response, no event sets them.
\<close>

theorem top_level_fields_exactly_one_event_counterexample:
  "map_option Headers (result_of (chromedp_listen example_lib NewDefaultOptions
       [RequestWillBeSent request_1, ResponseReceived cdp_response_1]
       (new_probe ''http://a/'' ZeroTime)))
     = Some [\<lparr>hdr_Key = ''Server'', hdr_Value = ''nginx''\<rparr>]
   \<and> map_option Headers (result_of (chromedp_listen example_lib NewDefaultOptions
       [RequestWillBeSent request_1, ResponseReceived cdp_response_1,
        ResponseReceived cdp_response_1]
       (new_probe ''http://a/'' ZeroTime)))
     = Some [\<lparr>hdr_Key = ''Server'', hdr_Value = ''nginx''\<rparr>,
             \<lparr>hdr_Key = ''Server'', hdr_Value = ''nginx''\<rparr>]
   \<and> map_option top_level (result_of (chromedp_listen example_lib NewDefaultOptions
       [RequestWillBeSent request_1,
        LoadingFailed \<lparr>lf_RequestID = ''1'', lf_ErrorText = ''net::ERR_NAME_NOT_RESOLVED''\<rparr>]
       (new_probe ''http://a/'' ZeroTime)))
     = Some ([], 0, [], [], [], zero_TLS)"
  by (simp add: result_of_def chromedp_handle_def chromedp_ResponseReceived_def
      chromedp_first_response_def on_RequestWillBeSent_def on_LoadingFailed_def is_first_def
      append_entry_def new_probe_def new_Result_def request_1_def cdp_response_1_def
      NewDefaultOptions_def top_level_def Let_def)


subsection \<open>A sub-request that gets a response and then fails\<close>

lemma run_handler_first_mid_last:
  "run_handler h (a # mid @ [b]) p = Inr q \<Longrightarrow>
     \<exists>p1 p2. h a p = Inr p1 \<and> run_handler h mid p1 = Inr p2 \<and> h b p2 = Inr q"
  by (auto simp: run_handler_append split: sum.splits)

lemma run_handler_netlog_kept:
  assumes h: "\<And>ev p q. h ev p = Inr q \<Longrightarrow> P ev \<Longrightarrow> netlog q rid = netlog p rid"
  shows "run_handler h evs p = Inr q \<Longrightarrow> \<forall>ev \<in> set evs. P ev \<Longrightarrow> netlog q rid = netlog p rid"
proof (induction evs arbitrary: p)
  case Nil
  then show ?case by simp
next
  case (Cons ev evs)
  then obtain p' where 1: "h ev p = Inr p'" and 2: "run_handler h evs p' = Inr q"
    by (auto split: sum.splits)
  from h[OF 1] Cons.IH[OF 2] Cons.prems(2) show ?case by simp
qed

lemma chromedp_handle_netlog_kept:
  "chromedp_handle l opts ev p = Inr q \<Longrightarrow> (\<forall>r. ev = RequestWillBeSent r \<longrightarrow> rq_RequestID r \<noteq> rid)
     \<Longrightarrow> netlog q rid = netlog p rid"
  by (cases ev)
     (auto simp: chromedp_handle_def on_RequestWillBeSent_def on_ConsoleAPICalled_def
        on_LoadingFailed_def chromedp_ResponseReceived_def append_entry_frame Let_def
        split: option.splits sum.splits if_splits)

lemma gorod_handle_netlog_kept:
  "gorod_handle l opts ev p = Inr q \<Longrightarrow> (\<forall>r. ev = RequestWillBeSent r \<longrightarrow> rq_RequestID r \<noteq> rid)
     \<Longrightarrow> netlog q rid = netlog p rid"
  by (cases ev)
     (auto simp: gorod_handle_def on_RequestWillBeSent_def on_ConsoleAPICalled_def
        on_LoadingFailed_def gorod_ResponseReceived_def append_entry_frame Let_def
        split: option.splits sum.splits if_splits)

lemma not_first_kept:
  assumes "wf_probe p" and "netlog p rid \<noteq> None" and "\<not> is_first p rid" and "extends p q"
  shows "\<not> is_first q rid \<and> netlog q rid \<noteq> None \<and> wf_probe q"
proof -
  from assms(1,2) have "first p \<noteq> None"
    by (auto simp: wf_probe_def)
  with assms(4) have "first q = first p"
    by (simp add: extends_def)
  with assms show ?thesis
    by (simp add: is_first_def extends_def)
qed

text \<open>
  What the two events do to \<open>Network\<close>, for any handler that treats them as the
  listeners do: \<open>respond\<close> appends the entry with the data of the response, \<open>fail\<close>
  is \<open>on_LoadingFailed\<close>.
\<close>

lemma response_then_failure:
  assumes wf: "wf_probe p" and n: "netlog p rid = Some entry" and nf: "\<not> is_first p rid"
    and ext: "\<And>ev p q. h ev p = Inr q \<Longrightarrow> extends p q"
    and kept: "\<And>ev p q. h ev p = Inr q \<Longrightarrow> P ev \<Longrightarrow> netlog q rid = netlog p rid"
    and resp: "h a p = Inr (append_entry opts rid entry1 p)"
    and fail: "\<And>p'. h (LoadingFailed fl) p' = Inr (on_LoadingFailed fl p')"
    and rid: "lf_RequestID fl = rid"
    and run: "run_handler h (a # mid @ [LoadingFailed fl]) p = Inr q"
  shows "\<exists>mids entry2. Network (p_result q)
           = Network (p_result p) @ [entry1] @ mids @ [entry2\<lparr>nl_Error := lf_ErrorText fl\<rparr>]
         \<and> nl_Error entry = [] \<and> nl_Error entry2 = []
         \<and> ((\<forall>ev \<in> set mid. P ev) \<longrightarrow> entry2 = entry)"
proof -
  from run_handler_first_mid_last[OF run] resp fail
  obtain p2 where mid: "run_handler h mid (append_entry opts rid entry1 p) = Inr p2"
    and q: "q = on_LoadingFailed fl p2"
    by auto
  let ?p1 = "append_entry opts rid entry1 p"
  have e1: "extends p ?p1"
    using resp by (rule ext)
  from not_first_kept[OF wf _ nf e1] n
  have p1: "\<not> is_first ?p1 rid" "netlog ?p1 rid \<noteq> None" "wf_probe ?p1"
    by simp_all
  have e2: "extends ?p1 p2"
    by (rule run_handler_extends[of h mid ?p1 p2, OF ext mid])
  from not_first_kept[OF p1(3) p1(2) p1(1) e2]
  have p2: "\<not> is_first p2 rid" "netlog p2 rid \<noteq> None" "wf_probe p2"
    by simp_all
  from p2(2) obtain entry2 where n2: "netlog p2 rid = Some entry2"
    by auto
  from e2 obtain mids where m: "Network (p_result p2) = Network (p_result ?p1) @ mids"
    by (auto simp: extends_def)
  have net: "Network (p_result q)
           = Network (p_result p) @ [entry1] @ mids @ [entry2\<lparr>nl_Error := lf_ErrorText fl\<rparr>]"
    using q n2 p2(1) m rid by (simp add: on_LoadingFailed_def append_entry_frame)
  have err: "nl_Error entry = []" "nl_Error entry2 = []"
    using wf n p2(3) n2 by (auto simp: wf_probe_def)
  have same: "entry2 = entry" if "\<forall>ev \<in> set mid. P ev"
  proof -
    from run_handler_netlog_kept[of h P rid, OF kept mid that]
    have "netlog p2 rid = netlog ?p1 rid" .
    with n n2 show ?thesis
      by (simp add: append_entry_frame)
  qed
  from net err same show ?thesis by blast
qed

lemma chromedp_response_sub_request:
  "netlog p (crs_RequestID e) = Some entry \<Longrightarrow> \<not> is_first p (crs_RequestID e) \<Longrightarrow>
   chromedp_handle l opts (ResponseReceived e) p
     = Inr (append_entry opts (crs_RequestID e)
             (entry\<lparr>nl_StatusCode := cr_Status (crs_Response e),
                    nl_URL := cr_URL (crs_Response e),
                    nl_RemoteIP := cr_RemoteIPAddress (crs_Response e),
                    nl_MIMEType := cr_MimeType (crs_Response e),
                    nl_Time := (case cr_ResponseTime (crs_Response e) of
                                  None \<Rightarrow> nl_Time entry | Some t \<Rightarrow> t)\<rparr>) p)"
  by (simp add: chromedp_handle_def chromedp_ResponseReceived_def)

lemma gorod_response_sub_request:
  "netlog p (rrs_RequestID e) = Some entry \<Longrightarrow> \<not> is_first p (rrs_RequestID e) \<Longrightarrow>
   gorod_handle l opts (ResponseReceived e) p
     = Inr (append_entry opts (rrs_RequestID e)
             (entry\<lparr>nl_StatusCode := rr_Status (rrs_Response e),
                    nl_URL := rr_URL (rrs_Response e),
                    nl_RemoteIP := rr_RemoteIPAddress (rrs_Response e),
                    nl_MIMEType := rr_MIMEType (rrs_Response e),
                    nl_Time := At (rr_ResponseTime (rrs_Response e))\<rparr>) p)"
  by (simp add: gorod_handle_def gorod_ResponseReceived_def)

text \<open>
  C10. In a state the listener has reached, take a request that has an entry in
  \<open>netlog\<close> and is not the first request. When the listener handles a response to it,
  then any events, then the failure of its loading, \<open>Network\<close> has gained two
  entries for it: one with the data of the response and no error text, appended by
  the response, and one with the error text of the failure, appended last. The second
  is made from the entry of \<open>netlog\<close>, which the response handler has not changed: it
  is the entry the request left there, unless a request event in between has replaced
  it. Nothing removes either entry.
\<close>

theorem sub_request_response_then_failure_appended_twice:
  assumes "chromedp_listen l opts evs (new_probe target now) = Inr p"
    and "netlog p (crs_RequestID e) = Some entry"
    and "\<not> is_first p (crs_RequestID e)"
    and "lf_RequestID fl = crs_RequestID e"
    and "chromedp_listen l opts (ResponseReceived e # mid @ [LoadingFailed fl]) p = Inr q"
    and "gorod_listen l opts False gevs (new_probe gtarget gnow) = Inr gp"
    and "netlog gp (rrs_RequestID ge) = Some gentry"
    and "\<not> is_first gp (rrs_RequestID ge)"
    and "lf_RequestID gfl = rrs_RequestID ge"
    and "gorod_listen l opts False (ResponseReceived ge # gmid @ [LoadingFailed gfl]) gp = Inr gq"
  shows "(\<exists>mids entry2. Network (p_result q)
            = Network (p_result p)
              @ [entry\<lparr>nl_StatusCode := cr_Status (crs_Response e),
                        nl_URL := cr_URL (crs_Response e),
                        nl_RemoteIP := cr_RemoteIPAddress (crs_Response e),
                        nl_MIMEType := cr_MimeType (crs_Response e),
                        nl_Time := (case cr_ResponseTime (crs_Response e) of
                                      None \<Rightarrow> nl_Time entry | Some t \<Rightarrow> t)\<rparr>]
              @ mids @ [entry2\<lparr>nl_Error := lf_ErrorText fl\<rparr>]
          \<and> nl_Error entry = [] \<and> nl_Error entry2 = []
          \<and> ((\<forall>ev \<in> set mid. \<forall>r. ev = RequestWillBeSent r \<longrightarrow> rq_RequestID r \<noteq> crs_RequestID e)
               \<longrightarrow> entry2 = entry))
       \<and> (\<exists>mids entry2. Network (p_result gq)
            = Network (p_result gp)
              @ [gentry\<lparr>nl_StatusCode := rr_Status (rrs_Response ge),
                         nl_URL := rr_URL (rrs_Response ge),
                         nl_RemoteIP := rr_RemoteIPAddress (rrs_Response ge),
                         nl_MIMEType := rr_MIMEType (rrs_Response ge),
                         nl_Time := At (rr_ResponseTime (rrs_Response ge))\<rparr>]
              @ mids @ [entry2\<lparr>nl_Error := lf_ErrorText gfl\<rparr>]
          \<and> nl_Error gentry = [] \<and> nl_Error entry2 = []
          \<and> ((\<forall>ev \<in> set gmid. \<forall>r. ev = RequestWillBeSent r \<longrightarrow> rq_RequestID r \<noteq> rrs_RequestID ge)
               \<longrightarrow> entry2 = gentry))"
proof (rule conjI)
  have fail: "chromedp_handle l opts (LoadingFailed fl) p' = Inr (on_LoadingFailed fl p')" for p'
    by (simp add: chromedp_handle_def)
  show "\<exists>mids entry2. Network (p_result q)
            = Network (p_result p)
              @ [entry\<lparr>nl_StatusCode := cr_Status (crs_Response e),
                        nl_URL := cr_URL (crs_Response e),
                        nl_RemoteIP := cr_RemoteIPAddress (crs_Response e),
                        nl_MIMEType := cr_MimeType (crs_Response e),
                        nl_Time := (case cr_ResponseTime (crs_Response e) of
                                      None \<Rightarrow> nl_Time entry | Some t \<Rightarrow> t)\<rparr>]
              @ mids @ [entry2\<lparr>nl_Error := lf_ErrorText fl\<rparr>]
          \<and> nl_Error entry = [] \<and> nl_Error entry2 = []
          \<and> ((\<forall>ev \<in> set mid. \<forall>r. ev = RequestWillBeSent r \<longrightarrow> rq_RequestID r \<noteq> crs_RequestID e)
               \<longrightarrow> entry2 = entry)"
    by (rule response_then_failure
          [where h = "chromedp_handle l opts" and opts = opts and a = "ResponseReceived e"
             and P = "\<lambda>ev. \<forall>r. ev = RequestWillBeSent r \<longrightarrow> rq_RequestID r \<noteq> crs_RequestID e",
           OF chromedp_listen_wf[OF assms(1)] assms(2) assms(3) chromedp_handle_extends
              chromedp_handle_netlog_kept chromedp_response_sub_request[OF assms(2) assms(3)]
              fail assms(4) assms(5)[unfolded chromedp_listen_run]])
next
  have fail: "gorod_handle l opts (LoadingFailed gfl) p' = Inr (on_LoadingFailed gfl p')" for p'
    by (simp add: gorod_handle_def)
  show "\<exists>mids entry2. Network (p_result gq)
            = Network (p_result gp)
              @ [gentry\<lparr>nl_StatusCode := rr_Status (rrs_Response ge),
                         nl_URL := rr_URL (rrs_Response ge),
                         nl_RemoteIP := rr_RemoteIPAddress (rrs_Response ge),
                         nl_MIMEType := rr_MIMEType (rrs_Response ge),
                         nl_Time := At (rr_ResponseTime (rrs_Response ge))\<rparr>]
              @ mids @ [entry2\<lparr>nl_Error := lf_ErrorText gfl\<rparr>]
          \<and> nl_Error gentry = [] \<and> nl_Error entry2 = []
          \<and> ((\<forall>ev \<in> set gmid. \<forall>r. ev = RequestWillBeSent r \<longrightarrow> rq_RequestID r \<noteq> rrs_RequestID ge)
               \<longrightarrow> entry2 = gentry)"
    by (rule response_then_failure
          [where h = "gorod_handle l opts" and opts = opts and a = "ResponseReceived ge"
             and P = "\<lambda>ev. \<forall>r. ev = RequestWillBeSent r \<longrightarrow> rq_RequestID r \<noteq> rrs_RequestID ge",
           OF gorod_listen_wf[OF assms(6)] assms(7) assms(8) gorod_handle_extends
              gorod_handle_netlog_kept gorod_response_sub_request[OF assms(7) assms(8)]
              fail assms(9) assms(10)[unfolded gorod_listen_run]])
qed

theorem sub_request_response_then_failure_appended_twice_witness:
  "chromedp_listen example_lib NewDefaultOptions
       [RequestWillBeSent request_1, RequestWillBeSent request_2] (new_probe ''http://a/'' ZeroTime)
     = Inr two_requests
   \<and> gorod_listen example_lib NewDefaultOptions False
       [RequestWillBeSent request_1, RequestWillBeSent request_2] (new_probe ''http://a/'' ZeroTime)
     = Inr two_requests
   \<and> netlog two_requests ''2'' = Some entry_2
   \<and> \<not> is_first two_requests ''2''
   \<and> (\<exists>q mids. chromedp_listen example_lib NewDefaultOptions
                   (ResponseReceived cdp_response_2 # [] @ [LoadingFailed failure_2]) two_requests
                 = Inr q
          \<and> Network (p_result q)
              = [entry_2\<lparr>nl_StatusCode := 200, nl_RemoteIP := ''10.0.0.1'',
                          nl_MIMEType := ''image/png''\<rparr>]
                @ mids @ [entry_2\<lparr>nl_Error := ''net::ERR_ABORTED''\<rparr>])
   \<and> (\<exists>gq mids. gorod_listen example_lib NewDefaultOptions False
                    (ResponseReceived rod_response_2 # [] @ [LoadingFailed failure_2]) two_requests
                  = Inr gq
          \<and> Network (p_result gq)
              = [entry_2\<lparr>nl_StatusCode := 404, nl_RemoteIP := ''10.0.0.1'',
                          nl_MIMEType := ''text/html'', nl_Time := At 13\<rparr>]
                @ mids @ [entry_2\<lparr>nl_Error := ''net::ERR_ABORTED''\<rparr>])"
proof -
  let ?evs = "[RequestWillBeSent request_1, RequestWillBeSent request_2]"
  have c: "chromedp_listen example_lib NewDefaultOptions ?evs (new_probe ''http://a/'' ZeroTime)
             = Inr two_requests"
    by (simp add: chromedp_handle_def two_requests_def)
  have g: "gorod_listen example_lib NewDefaultOptions False ?evs (new_probe ''http://a/'' ZeroTime)
             = Inr two_requests"
    by (simp add: gorod_handle_def two_requests_def)
  have n: "netlog two_requests ''2'' = Some entry_2"
    and f: "\<not> is_first two_requests ''2''"
    and r: "Network (p_result two_requests) = []"
    by (simp_all add: two_requests_def on_RequestWillBeSent_def new_probe_def new_Result_def
        request_1_def request_2_def is_first_def entry_2_def)
  have ids: "crs_RequestID cdp_response_2 = ''2''" "rrs_RequestID rod_response_2 = ''2''"
    "lf_RequestID failure_2 = ''2''"
    by (simp_all add: cdp_response_2_def rod_response_2_def failure_2_def)
  obtain q where q: "chromedp_listen example_lib NewDefaultOptions
      (ResponseReceived cdp_response_2 # [] @ [LoadingFailed failure_2]) two_requests = Inr q"
    using n f ids
    by (auto simp: chromedp_handle_def chromedp_ResponseReceived_def split: option.splits)
  obtain gq where gq: "gorod_listen example_lib NewDefaultOptions False
      (ResponseReceived rod_response_2 # [] @ [LoadingFailed failure_2]) two_requests = Inr gq"
    using n f ids
    by (auto simp: gorod_handle_def gorod_ResponseReceived_def split: option.splits)
  from sub_request_response_then_failure_appended_twice
         [where e = cdp_response_2 and ge = rod_response_2 and fl = failure_2 and gfl = failure_2
            and entry = entry_2 and gentry = entry_2 and mid = "[]" and gmid = "[]",
          OF c _ _ _ q g _ _ _ gq] n f ids
  have "(\<exists>mids. Network (p_result q)
            = Network (p_result two_requests)
              @ [entry_2\<lparr>nl_StatusCode := cr_Status (crs_Response cdp_response_2),
                          nl_URL := cr_URL (crs_Response cdp_response_2),
                          nl_RemoteIP := cr_RemoteIPAddress (crs_Response cdp_response_2),
                          nl_MIMEType := cr_MimeType (crs_Response cdp_response_2),
                          nl_Time := (case cr_ResponseTime (crs_Response cdp_response_2) of
                                        None \<Rightarrow> nl_Time entry_2 | Some t \<Rightarrow> t)\<rparr>]
              @ mids @ [entry_2\<lparr>nl_Error := lf_ErrorText failure_2\<rparr>])
      \<and> (\<exists>mids. Network (p_result gq)
            = Network (p_result two_requests)
              @ [entry_2\<lparr>nl_StatusCode := rr_Status (rrs_Response rod_response_2),
                          nl_URL := rr_URL (rrs_Response rod_response_2),
                          nl_RemoteIP := rr_RemoteIPAddress (rrs_Response rod_response_2),
                          nl_MIMEType := rr_MIMEType (rrs_Response rod_response_2),
                          nl_Time := At (rr_ResponseTime (rrs_Response rod_response_2))\<rparr>]
              @ mids @ [entry_2\<lparr>nl_Error := lf_ErrorText failure_2\<rparr>])"
    by auto
  then have "(\<exists>mids. Network (p_result q)
              = [entry_2\<lparr>nl_StatusCode := 200, nl_RemoteIP := ''10.0.0.1'',
                          nl_MIMEType := ''image/png''\<rparr>]
                @ mids @ [entry_2\<lparr>nl_Error := ''net::ERR_ABORTED''\<rparr>])
      \<and> (\<exists>mids. Network (p_result gq)
              = [entry_2\<lparr>nl_StatusCode := 404, nl_RemoteIP := ''10.0.0.1'',
                          nl_MIMEType := ''text/html'', nl_Time := At 13\<rparr>]
                @ mids @ [entry_2\<lparr>nl_Error := ''net::ERR_ABORTED''\<rparr>])"
    by (simp add: r cdp_response_2_def rod_response_2_def failure_2_def entry_2_def)
  with c g n f q gq show ?thesis by blast
qed


section \<open>Witness\<close>

subsection \<open>What the steps before the capture keep\<close>

lemma run_steps_append:
  "run_steps (ss @ ss') p =
     (case run_steps ss p of
        (Ok, p') \<Rightarrow> run_steps ss' p'
      | (Err e, p') \<Rightarrow> (Err e, p')
      | (Panic x, p') \<Rightarrow> (Panic x, p'))"
  by (induction ss arbitrary: p) (auto split: prod.splits outcome.splits)

lemma run_steps_extends:
  assumes "\<And>s p q. s \<in> set ss \<Longrightarrow> s p = (Ok, q) \<Longrightarrow> extends p q"
  shows "run_steps ss p = (Ok, q) \<Longrightarrow> extends p q"
  using assms
proof (induction ss arbitrary: p)
  case Nil
  then show ?case by (simp add: extends_refl)
next
  case (Cons s ss)
  from Cons.prems(1) obtain p' where 1: "s p = (Ok, p')" and 2: "run_steps ss p' = (Ok, q)"
    by (auto split: prod.splits outcome.splits)
  have "extends p p'"
    using 1 by (intro Cons.prems(2)[of s]) simp_all
  moreover have "extends p' q"
  proof (rule Cons.IH[OF 2])
    fix s' p q
    assume "s' \<in> set ss" "s' p = (Ok, q)"
    then show "extends p q"
      using Cons.prems(2)[of s' p q] by simp
  qed
  ultimately show ?case by (rule extends_trans)
qed

lemma extends_plogs: "extends p (p\<lparr>plogs := lg\<rparr>)"
  by (rule extends_same_requests) simp_all

lemma extends_plog_if: "extends p (plog_if b e p)"
  by (simp add: plog_if_def plog_def extends_plogs extends_refl)

lemma extends_plog: "extends p (plog e p)"
  by (simp add: plog_def extends_plogs)

lemma extends_result:
  "Network r = Network (p_result p) \<Longrightarrow> PerceptionHash r = PerceptionHash (p_result p) \<Longrightarrow>
   Screenshot r = Screenshot (p_result p) \<Longrightarrow> Filename r = Filename (p_result p) \<Longrightarrow>
   extends p (p\<lparr>p_result := r\<rparr>)"
  by (rule extends_same_requests) simp_all

lemma gorod_listen_extends_any:
  "gorod_listen l opts dismissEvents evs p = Inr q \<Longrightarrow> extends p q"
proof (induction evs arbitrary: p)
  case Nil
  then show ?case by (simp add: extends_refl)
next
  case (Cons ev evs)
  show ?case
  proof (cases "ev = OtherEvent")
    case True
    with Cons show ?thesis by simp
  next
    case False
    with Cons.prems obtain p' where 1: "gorod_handle l opts ev p = Inr p'"
      and 2: "if dismissEvents then q = p' else gorod_listen l opts dismissEvents evs p' = Inr q"
      by (cases ev) (auto split: sum.splits if_splits)
    from gorod_handle_extends[OF 1] 2 Cons.IH[of p'] show ?thesis
      by (auto intro: extends_trans split: if_splits)
  qed
qed

lemma common_steps_extend:
  "delay_step opts p = (Ok, q) \<Longrightarrow> extends p q"
  "cookies_step opts env p = (Ok, q) \<Longrightarrow> extends p q"
  "fingerprint_step env p = (Ok, q) \<Longrightarrow> extends p q"
  by (auto simp: delay_step_def cookies_step_def fingerprint_step_def extends_refl
      extends_plog_if intro!: extends_result split: sum.splits)

lemma chromedp_steps_extend:
  "chromedp_allocator_step opts env p = (Ok, q) \<Longrightarrow> extends p q"
  "chromedp_enable_step env p = (Ok, q) \<Longrightarrow> extends p q"
  "chromedp_headers_step l opts env p = (Ok, q) \<Longrightarrow> extends p q"
  "chromedp_listen_step l opts env stage p = (Ok, q) \<Longrightarrow> extends p q"
  "chromedp_navigate_step env p = (Ok, q) \<Longrightarrow> extends p q"
  "chromedp_javascript_step opts env p = (Ok, q) \<Longrightarrow> extends p q"
  "chromedp_title_step opts env p = (Ok, q) \<Longrightarrow> extends p q"
  "chromedp_html_step opts env p = (Ok, q) \<Longrightarrow> extends p q"
  by (auto simp: chromedp_allocator_step_def chromedp_enable_step_def chromedp_headers_step_def
      chromedp_listen_step_def chromedp_navigate_step_def chromedp_javascript_step_def
      chromedp_title_step_def chromedp_html_step_def extends_refl extends_plog_if extends_plogs
      chromedp_listen_extends
      intro!: extends_result split: sum.splits option.splits if_splits prod.splits
        run_error.splits nav_error.splits)

lemma gorod_steps_extend:
  "gorod_page_step env p = (Ok, q) \<Longrightarrow> extends p q"
  "gorod_viewport_step opts env p = (Ok, q) \<Longrightarrow> extends p q"
  "gorod_user_agent_step opts env p = (Ok, q) \<Longrightarrow> extends p q"
  "gorod_headers_step l opts env p = (Ok, q) \<Longrightarrow> extends p q"
  "gorod_listen_step l opts env dismissEvents stage p = (Ok, q) \<Longrightarrow> extends p q"
  "gorod_navigate_step env p = (Ok, q) \<Longrightarrow> extends p q"
  "gorod_javascript_step opts env p = (Ok, q) \<Longrightarrow> extends p q"
  "gorod_info_step opts env p = (Ok, q) \<Longrightarrow> extends p q"
  "gorod_html_step opts env p = (Ok, q) \<Longrightarrow> extends p q"
  "gorod_debug_step p = (Ok, q) \<Longrightarrow> extends p q"
  by (auto simp: gorod_page_step_def gorod_viewport_step_def gorod_user_agent_step_def
      gorod_headers_step_def gorod_listen_step_def gorod_navigate_step_def
      gorod_javascript_step_def gorod_info_step_def gorod_html_step_def gorod_debug_step_def
      extends_refl extends_plog_if extends_plog extends_plogs gorod_listen_extends_any
      intro!: extends_result split: sum.splits option.splits if_splits prod.splits)

lemma chromedp_page_steps_extend:
  "run_steps (chromedp_page_steps l opts env) p = (Ok, q) \<Longrightarrow> extends p q"
  by (rule run_steps_extends[of "chromedp_page_steps l opts env"])
     (auto simp: chromedp_page_steps_def dest: common_steps_extend chromedp_steps_extend)

lemma gorod_page_steps_extend:
  "run_steps (gorod_page_steps l opts env) p = (Ok, q) \<Longrightarrow> extends p q"
  by (rule run_steps_extends[of "gorod_page_steps l opts env"])
     (auto simp: gorod_page_steps_def dest: common_steps_extend gorod_steps_extend)

lemma nothing_captured_yet:
  assumes "extends (start_probe target now) p"
  shows "files p = [] \<and> PerceptionHash (p_result p) = [] \<and> Screenshot (p_result p) = []
       \<and> Filename (p_result p) = []"
  using assms by (simp add: extends_def start_probe_def plog_def new_probe_def new_Result_def)

subsection \<open>The screenshot\<close>

text \<open>
  C8. Take a probe that has reached the capture of the screenshot, in either driver.
  When the capture fails, \<open>Witness\<close> returns the Result with a nil error, marked failed
  with the error of the capture as the reason; nothing else of the Result changes,
  so that it has no base64 screenshot, no file name and no perceptual hash, and
  \<open>os.WriteFile\<close> is not called. When the capture succeeds and writing the file fails,
  or writing is skipped or succeeds and decoding the image fails, \<open>Witness\<close> returns an
  error and no Result.
\<close>

theorem capture_failure_marks_failed_later_failure_is_error:
  assumes "run_steps (chromedp_page_steps l opts env) (start_probe target (b_now env)) = (Ok, p)"
    and "run_steps (gorod_page_steps l opts genv) (start_probe target (b_now genv)) = (Ok, gp)"
  shows
    "(\<forall>err. chromedp_capture opts env = Inl err \<longrightarrow>
        Chromedp_Witness l opts env target
          = (Ok, (plog_if (LogScanErrors (Logging opts))
                    (LError, ''could not grab screenshot'', err) p)
                 \<lparr>p_result := (p_result p)\<lparr>Failed := True, FailedReason := err\<rparr>\<rparr>)
        \<and> files (snd (Chromedp_Witness l opts env target)) = []
        \<and> PerceptionHash (p_result (snd (Chromedp_Witness l opts env target))) = []
        \<and> Screenshot (p_result (snd (Chromedp_Witness l opts env target))) = []
        \<and> Filename (p_result (snd (Chromedp_Witness l opts env target))) = [])
   \<and> (\<forall>img werr. chromedp_capture opts env = Inr img \<and> \<not> ScreenshotSkipSave (Scan opts)
        \<and> b_WriteFile env
             (Join l (ScreenshotPath (Scan opts))
                (LeftTrucate l (SafeFileName l target @ ''.'' @ ScreenshotFormat (Scan opts)) 200))
             img = Some werr \<longrightarrow>
        fst (Chromedp_Witness l opts env target)
          = Err (OtherError (''could not write screenshot to disk: '' @ werr)))
   \<and> (\<forall>img derr. chromedp_capture opts env = Inr img
        \<and> (ScreenshotSkipSave (Scan opts)
            \<or> b_WriteFile env
                 (Join l (ScreenshotPath (Scan opts))
                    (LeftTrucate l (SafeFileName l target @ ''.'' @ ScreenshotFormat (Scan opts)) 200))
                 img = None)
        \<and> b_Decode env img = Some derr \<longrightarrow>
        fst (Chromedp_Witness l opts env target)
          = Err (OtherError (''failed to decode screenshot image: '' @ derr)))
   \<and> (\<forall>err. gorod_capture opts genv = Inl err \<longrightarrow>
        Gorod_Witness l opts genv target
          = (Ok, (plog_if (LogScanErrors (Logging opts))
                    (LError, ''could not grab screenshot'', err) gp)
                 \<lparr>p_result := (p_result gp)\<lparr>Failed := True, FailedReason := err\<rparr>\<rparr>)
        \<and> files (snd (Gorod_Witness l opts genv target)) = []
        \<and> PerceptionHash (p_result (snd (Gorod_Witness l opts genv target))) = []
        \<and> Screenshot (p_result (snd (Gorod_Witness l opts genv target))) = []
        \<and> Filename (p_result (snd (Gorod_Witness l opts genv target))) = [])
   \<and> (\<forall>img werr. gorod_capture opts genv = Inr img \<and> \<not> ScreenshotSkipSave (Scan opts)
        \<and> b_WriteFile genv
             (Join l (ScreenshotPath (Scan opts))
                (LeftTrucate l (SafeFileName l target @ ''.'' @ ScreenshotFormat (Scan opts)) 200))
             img = Some werr \<longrightarrow>
        fst (Gorod_Witness l opts genv target)
          = Err (OtherError (''could not write screenshot to disk: '' @ werr)))
   \<and> (\<forall>img derr. gorod_capture opts genv = Inr img
        \<and> (ScreenshotSkipSave (Scan opts)
            \<or> b_WriteFile genv
                 (Join l (ScreenshotPath (Scan opts))
                    (LeftTrucate l (SafeFileName l target @ ''.'' @ ScreenshotFormat (Scan opts)) 200))
                 img = None)
        \<and> b_Decode genv img = Some derr \<longrightarrow>
        fst (Gorod_Witness l opts genv target)
          = Err (OtherError (''failed to decode screenshot image: '' @ derr)))"
proof -
  from nothing_captured_yet[OF chromedp_page_steps_extend[OF assms(1)]]
  have c0: "files p = []" "PerceptionHash (p_result p) = []" "Screenshot (p_result p) = []"
    "Filename (p_result p) = []"
    by simp_all
  from nothing_captured_yet[OF gorod_page_steps_extend[OF assms(2)]]
  have g0: "files gp = []" "PerceptionHash (p_result gp) = []" "Screenshot (p_result gp) = []"
    "Filename (p_result gp) = []"
    by simp_all
  have cw: "Chromedp_Witness l opts env target
              = screenshot_step l opts env target (chromedp_capture opts env) p"
    using assms(1) by (simp add: Chromedp_Witness_def run_steps_append split: prod.splits outcome.splits)
  have gw: "Gorod_Witness l opts genv target
              = screenshot_step l opts genv target (gorod_capture opts genv) gp"
    using assms(2) by (simp add: Gorod_Witness_def run_steps_append split: prod.splits outcome.splits)
  have plf: "files (plog_if b e x) = files x" "p_result (plog_if b e x) = p_result x" for b e x
    by (simp_all add: plog_if_def plog_def)
  show ?thesis
    unfolding cw gw
    by (simp add: screenshot_step_def hash_step_def Let_def plf c0 g0)
qed

lemmas step_defs = chromedp_page_steps_def chromedp_allocator_step_def chromedp_enable_step_def
  chromedp_headers_step_def chromedp_listen_step_def chromedp_navigate_step_def
  chromedp_javascript_step_def chromedp_title_step_def chromedp_html_step_def
  delay_step_def cookies_step_def fingerprint_step_def
  gorod_page_steps_def gorod_page_step_def gorod_viewport_step_def gorod_user_agent_step_def
  gorod_headers_step_def gorod_listen_step_def gorod_navigate_step_def
  gorod_javascript_step_def gorod_info_step_def gorod_html_step_def gorod_debug_step_def
  start_probe_def plog_def plog_if_def new_probe_def

lemmas handler_defs = chromedp_handle_def chromedp_ResponseReceived_def
  chromedp_first_response_def gorod_handle_def gorod_ResponseReceived_def
  gorod_first_response_def gorod_write_headers_def on_RequestWillBeSent_def
  on_LoadingFailed_def is_first_def append_entry_def

lemmas browser_defs = cdp_browser_def rod_browser_def NewDefaultOptions_def example_lib_def
  request_1_def cdp_response_1_def rod_response_ok_def cdp_capture_fails_def
  cdp_write_fails_def cdp_decode_fails_def rod_capture_fails_def rod_write_fails_def
  rod_decode_fails_def

lemma example_browsers_reach_capture:
  "fst (run_steps (chromedp_page_steps example_lib NewDefaultOptions cdp_capture_fails)
          (start_probe ''http://a/'' (b_now cdp_capture_fails))) = Ok"
  "fst (run_steps (chromedp_page_steps example_lib NewDefaultOptions cdp_write_fails)
          (start_probe ''http://a/'' (b_now cdp_write_fails))) = Ok"
  "fst (run_steps (chromedp_page_steps example_lib NewDefaultOptions cdp_decode_fails)
          (start_probe ''http://a/'' (b_now cdp_decode_fails))) = Ok"
  "fst (run_steps (gorod_page_steps example_lib NewDefaultOptions rod_capture_fails)
          (start_probe ''http://a/'' (b_now rod_capture_fails))) = Ok"
  "fst (run_steps (gorod_page_steps example_lib NewDefaultOptions rod_write_fails)
          (start_probe ''http://a/'' (b_now rod_write_fails))) = Ok"
  "fst (run_steps (gorod_page_steps example_lib NewDefaultOptions rod_decode_fails)
          (start_probe ''http://a/'' (b_now rod_decode_fails))) = Ok"
  by (simp_all add: step_defs handler_defs browser_defs Let_def)

lemma example_captures:
  "chromedp_capture NewDefaultOptions cdp_capture_fails = Inl ''timeout''"
  "chromedp_capture NewDefaultOptions cdp_write_fails = Inr ''JPEG''"
  "chromedp_capture NewDefaultOptions cdp_decode_fails = Inr ''JPEG''"
  "gorod_capture NewDefaultOptions rod_capture_fails = Inl ''timeout''"
  "gorod_capture NewDefaultOptions rod_write_fails = Inr ''JPEG''"
  "gorod_capture NewDefaultOptions rod_decode_fails = Inr ''JPEG''"
  by (simp_all add: chromedp_capture_def gorod_capture_def browser_defs)

lemma example_failures:
  "\<not> ScreenshotSkipSave (Scan NewDefaultOptions)"
  "b_WriteFile cdp_write_fails path img = Some ''disk full''"
  "b_WriteFile rod_write_fails path img = Some ''disk full''"
  "b_WriteFile cdp_decode_fails path img = None"
  "b_WriteFile rod_decode_fails path img = None"
  "b_Decode cdp_decode_fails img = Some ''unknown format''"
  "b_Decode rod_decode_fails img = Some ''unknown format''"
  by (simp_all add: browser_defs)

theorem capture_failure_marks_failed_later_failure_is_error_witness:
  "(fst (Chromedp_Witness example_lib NewDefaultOptions cdp_capture_fails ''http://a/'') = Ok
    \<and> Failed (p_result (snd (Chromedp_Witness example_lib NewDefaultOptions cdp_capture_fails
                               ''http://a/'')))
    \<and> FailedReason (p_result (snd (Chromedp_Witness example_lib NewDefaultOptions
                                     cdp_capture_fails ''http://a/''))) = ''timeout''
    \<and> files (snd (Chromedp_Witness example_lib NewDefaultOptions cdp_capture_fails ''http://a/''))
        = []
    \<and> fst (Gorod_Witness example_lib NewDefaultOptions rod_write_fails ''http://a/'')
        = Err (OtherError ''could not write screenshot to disk: disk full''))
   \<and> (fst (Chromedp_Witness example_lib NewDefaultOptions cdp_write_fails ''http://a/'')
        = Err (OtherError ''could not write screenshot to disk: disk full'')
    \<and> fst (Gorod_Witness example_lib NewDefaultOptions rod_decode_fails ''http://a/'')
        = Err (OtherError ''failed to decode screenshot image: unknown format''))
   \<and> (fst (Chromedp_Witness example_lib NewDefaultOptions cdp_decode_fails ''http://a/'')
        = Err (OtherError ''failed to decode screenshot image: unknown format'')
    \<and> fst (Gorod_Witness example_lib NewDefaultOptions rod_capture_fails ''http://a/'') = Ok
    \<and> Failed (p_result (snd (Gorod_Witness example_lib NewDefaultOptions rod_capture_fails
                               ''http://a/'')))
    \<and> FailedReason (p_result (snd (Gorod_Witness example_lib NewDefaultOptions
                                     rod_capture_fails ''http://a/''))) = ''timeout''
    \<and> files (snd (Gorod_Witness example_lib NewDefaultOptions rod_capture_fails ''http://a/''))
        = [])"
proof -
  note r = example_browsers_reach_capture and c = example_captures and f = example_failures
  obtain p1 where p1: "run_steps (chromedp_page_steps example_lib NewDefaultOptions cdp_capture_fails)
      (start_probe ''http://a/'' (b_now cdp_capture_fails)) = (Ok, p1)"
    using r(1) by (metis prod.collapse)
  obtain p2 where p2: "run_steps (chromedp_page_steps example_lib NewDefaultOptions cdp_write_fails)
      (start_probe ''http://a/'' (b_now cdp_write_fails)) = (Ok, p2)"
    using r(2) by (metis prod.collapse)
  obtain p3 where p3: "run_steps (chromedp_page_steps example_lib NewDefaultOptions cdp_decode_fails)
      (start_probe ''http://a/'' (b_now cdp_decode_fails)) = (Ok, p3)"
    using r(3) by (metis prod.collapse)
  obtain g1 where g1: "run_steps (gorod_page_steps example_lib NewDefaultOptions rod_capture_fails)
      (start_probe ''http://a/'' (b_now rod_capture_fails)) = (Ok, g1)"
    using r(4) by (metis prod.collapse)
  obtain g2 where g2: "run_steps (gorod_page_steps example_lib NewDefaultOptions rod_write_fails)
      (start_probe ''http://a/'' (b_now rod_write_fails)) = (Ok, g2)"
    using r(5) by (metis prod.collapse)
  obtain g3 where g3: "run_steps (gorod_page_steps example_lib NewDefaultOptions rod_decode_fails)
      (start_probe ''http://a/'' (b_now rod_decode_fails)) = (Ok, g3)"
    using r(6) by (metis prod.collapse)
  note a = capture_failure_marks_failed_later_failure_is_error[OF p1 g2]
  note b = capture_failure_marks_failed_later_failure_is_error[OF p2 g3]
  note d = capture_failure_marks_failed_later_failure_is_error[OF p3 g1]
  have a1: "Chromedp_Witness example_lib NewDefaultOptions cdp_capture_fails ''http://a/''
      = (Ok, (plog_if (LogScanErrors (Logging NewDefaultOptions))
                (LError, ''could not grab screenshot'', ''timeout'') p1)
             \<lparr>p_result := (p_result p1)\<lparr>Failed := True, FailedReason := ''timeout''\<rparr>\<rparr>)"
    and a2: "files (snd (Chromedp_Witness example_lib NewDefaultOptions cdp_capture_fails
                          ''http://a/'')) = []"
    using a c(1) by blast+
  have a3: "fst (Gorod_Witness example_lib NewDefaultOptions rod_write_fails ''http://a/'')
        = Err (OtherError (''could not write screenshot to disk: '' @ ''disk full''))"
    using a c(5) f(1) f(3) by blast
  have b1: "fst (Chromedp_Witness example_lib NewDefaultOptions cdp_write_fails ''http://a/'')
        = Err (OtherError (''could not write screenshot to disk: '' @ ''disk full''))"
    using b c(2) f(1) f(2) by blast
  have b2: "fst (Gorod_Witness example_lib NewDefaultOptions rod_decode_fails ''http://a/'')
        = Err (OtherError (''failed to decode screenshot image: '' @ ''unknown format''))"
    using b c(6) f(5) f(7) by blast
  have d1: "fst (Chromedp_Witness example_lib NewDefaultOptions cdp_decode_fails ''http://a/'')
        = Err (OtherError (''failed to decode screenshot image: '' @ ''unknown format''))"
    using d c(3) f(4) f(6) by blast
  have d2: "Gorod_Witness example_lib NewDefaultOptions rod_capture_fails ''http://a/''
      = (Ok, (plog_if (LogScanErrors (Logging NewDefaultOptions))
                (LError, ''could not grab screenshot'', ''timeout'') g1)
             \<lparr>p_result := (p_result g1)\<lparr>Failed := True, FailedReason := ''timeout''\<rparr>\<rparr>)"
    and d3: "files (snd (Gorod_Witness example_lib NewDefaultOptions rod_capture_fails
                          ''http://a/'')) = []"
    using d c(4) by blast+
  show ?thesis
    unfolding a1 d2 using a2[unfolded a1] a3 b1 b2 d1 d3[unfolded d2] by simp
qed


subsection \<open>User JavaScript\<close>

lemma gorod_javascript_step_only_logs:
  "fst (gorod_javascript_step opts env p) = Ok
   \<and> p_result (snd (gorod_javascript_step opts env p)) = p_result p
   \<and> (\<forall>err. JavaScript (Scan opts) \<noteq> [] \<and> b_evaluate env (JavaScript (Scan opts)) = Some err \<longrightarrow>
         gorod_javascript_step opts env p
           = (Ok, plog (LWarn, ''failed to evaluate user-provided javascript'', err) p))"
  by (simp add: gorod_javascript_step_def plog_def split: option.splits)

lemma chromedp_javascript_step_returns_error:
  "JavaScript (Scan opts) \<noteq> [] \<Longrightarrow> b_evaluate env (JavaScript (Scan opts)) = Some err \<Longrightarrow>
   chromedp_javascript_step opts env p
     = (Err (OtherError (''failed to evaluate user-provided javascript: '' @ err)), p)"
  by (simp add: chromedp_javascript_step_def)

text \<open>
  C4 at a failing input. With JavaScript configured and a browser in which its
  evaluation fails, \<open>Gorod.Witness\<close> logs a warning and returns the Result, which is
  not marked failed; \<open>Chromedp.Witness\<close> returns the evaluation error and no Result.
\<close>

theorem chromedp_returns_javascript_error:
  "fst (Chromedp_Witness example_lib javascript_options cdp_javascript_fails ''http://a/'')
     = Err (OtherError ''failed to evaluate user-provided javascript: x is not defined'')
   \<and> fst (Gorod_Witness example_lib javascript_options rod_javascript_fails ''http://a/'') = Ok
   \<and> \<not> Failed (p_result (snd (Gorod_Witness example_lib javascript_options
                                  rod_javascript_fails ''http://a/'')))
   \<and> plogs (snd (Gorod_Witness example_lib javascript_options rod_javascript_fails ''http://a/''))
       = [(LDebug, ''witnessing'', ''http://a/''),
          (LWarn, ''failed to evaluate user-provided javascript'', ''x is not defined''),
          (LDebug, ''taking a screenshot'', [])]"
  by (simp add: Chromedp_Witness_def Gorod_Witness_def step_defs handler_defs browser_defs
      javascript_options_def cdp_javascript_fails_def rod_javascript_fails_def
      screenshot_step_def hash_step_def gorod_capture_def gorod_screenshotOptions_def
      new_Result_def Let_def)

subsection \<open>Navigation\<close>

lemma chromedp_navigate_step_tolerates_deadline:
  "(fst (chromedp_navigate_step env p) = Ok)
     = (b_navigate env = None \<or> b_navigate env = Some DeadlineExceeded)"
  by (simp add: chromedp_navigate_step_def split: option.splits nav_error.splits)

lemma gorod_navigate_step_returns_any_error:
  "(fst (gorod_navigate_step env p) = Ok) = (b_navigate env = None)"
  by (simp add: gorod_navigate_step_def split: option.splits)

text \<open>
  C5 at a failing input. When the navigation ends with the expiry of the deadline,
  \<open>Chromedp.Witness\<close> goes on and returns a Result; \<open>Gorod.Witness\<close> returns the error
  and no Result.
\<close>

theorem gorod_returns_deadline_error:
  "fst (Gorod_Witness example_lib NewDefaultOptions rod_deadline ''http://a/'')
     = Err (OtherError ''could not navigate to target: context deadline exceeded'')
   \<and> fst (Chromedp_Witness example_lib NewDefaultOptions cdp_deadline ''http://a/'') = Ok"
  by (simp add: Chromedp_Witness_def Gorod_Witness_def step_defs handler_defs browser_defs
      cdp_deadline_def rod_deadline_def screenshot_step_def hash_step_def chromedp_capture_def
      Let_def)


end
